theory Spec2Isabelle
  imports Main "HOL-Library.AList"
begin

section \<open>Python values, exceptions and the calls that leave model.py\<close>

text \<open>
  model.py is dynamically typed, so one universe of values is used. A tensor is its shape
  together with its elements in row-major order; the element type is a parameter, since the
  code only moves elements around. An object is its class and its instance attributes in
  the order of assignment.
\<close>

datatype error =
    TypeError | AttributeError | NameError | ValueError | IndexError | RuntimeError
  | AssertionError

datatype cls =
    Embedding | GRU | LSTM | Linear | ReLU | Tanh | GELU | CrossEntropyLoss
  | PackedSequence
  | MTLArchitecture | SharedRNN | NERSpecificRNN | RESpecificRNN | CharRNN
  | SharedBiRNN | NERSpecificBiRNN | RESpecificBiRNN

datatype 'a pyval =
    PNone
  | PBool bool
  | PInt int
  | PStr string
  | PList "'a pyval list"
  | PTuple "'a pyval list"
  | PTensor "nat list" "'a list"
  | PObj cls "(string \<times> 'a pyval) list"

type_synonym 'a attrs = "(string \<times> 'a pyval) list"

text \<open>
  Everything model.py does not define itself is reached through a call: the construction
  of a torch.nn layer (\<open>New\<close>: class, positional arguments, keyword arguments), the
  invocation of a layer object on arguments (\<open>Forward\<close>), a function of torch
  (\<open>Torch\<close>) and a function imported from the repository's utils module
  (\<open>Utils\<close>), whose source is not part of model.py.
\<close>

datatype torch_fn = pack_padded_sequence | torch_cat

datatype utils_fn = load_glove_embeddings | load_elmo_weights

datatype 'a call =
    New cls "'a pyval list" "'a attrs"
  | Forward "'a pyval" "'a pyval list"
  | Torch torch_fn "'a pyval list" "'a attrs"
  | Utils utils_fn "'a pyval list"

text \<open>
  The environment answers each call with a value or an exception. A run of model code is
  its outcome together with the calls it made, in order: an exception ends the run, and
  the calls made before it stay in the log.
\<close>

type_synonym 'a lib = "'a call \<Rightarrow> error + 'a pyval"

type_synonym ('a, 'r) run = "(error + 'r) \<times> 'a call list"

definition ret :: "'r \<Rightarrow> ('a, 'r) run" where
  "ret v = (Inr v, [])"

definition raise :: "error \<Rightarrow> ('a, 'r) run" where
  "raise e = (Inl e, [])"

definition call :: "'a lib \<Rightarrow> 'a call \<Rightarrow> ('a, 'a pyval) run" where
  "call lib c = (lib c, [c])"

definition lift :: "error + 'r \<Rightarrow> ('a, 'r) run" where
  "lift r = (r, [])"

definition and_then :: "('a, 'r) run \<Rightarrow> ('r \<Rightarrow> ('a, 's) run) \<Rightarrow> ('a, 's) run" where
  "and_then m f =
     (case m of
        (Inl e, log) \<Rightarrow> (Inl e, log)
      | (Inr v, log) \<Rightarrow> (case f v of (r, log') \<Rightarrow> (r, log @ log')))"

definition outcome :: "('a, 'r) run \<Rightarrow> error + 'r" where
  "outcome m = fst m"

definition calls :: "('a, 'r) run \<Rightarrow> 'a call list" where
  "calls m = snd m"

text \<open>Attribute access: \<open>obj.name\<close> raises AttributeError when the attribute was never set.\<close>

fun attr :: "'a pyval \<Rightarrow> string \<Rightarrow> error + 'a pyval" where
  "attr (PObj c as) k = (case map_of as k of None \<Rightarrow> Inl AttributeError | Some v \<Rightarrow> Inr v)"
| "attr _ k = Inl AttributeError"

definition setattr :: "'a attrs \<Rightarrow> string \<Rightarrow> 'a pyval \<Rightarrow> 'a attrs" where
  "setattr self k v = AList.update k v self"

section \<open>The constructors of model.py\<close>

text \<open>
  Each \<open>__init__\<close> starts from the empty attribute dictionary that
  \<open>super().__init__()\<close> leaves, threads it through the assignments to \<open>self\<close>,
  and returns the finished object. Dimension and count arguments are Python ints, the two
  selectors are strings; \<open>dropout\<close> is accepted by the constructors and never used.
\<close>

definition rnn_cls :: "string \<Rightarrow> cls" where
  "rnn_cls recurrent_unit = (if recurrent_unit = ''gru'' then GRU else LSTM)"

definition CharRNN_init :: "'a lib \<Rightarrow> 'a pyval \<Rightarrow> int \<Rightarrow> string \<Rightarrow> ('a, 'a pyval) run" where
  "CharRNN_init lib cemb num_layers recurrent_unit =
     (let self = setattr [] ''cemb'' cemb in
      and_then
        (if recurrent_unit = ''gru'' then
           and_then (lift (attr cemb ''embedding_dim'')) (\<lambda>d1.
           and_then (lift (attr cemb ''embedding_dim'')) (\<lambda>d2.
           call lib (New GRU [d1, d2, PInt num_layers] [(''bidirectional'', PBool True)])))
         else
           and_then (lift (attr cemb ''embedding_dim'')) (\<lambda>d1.
           and_then (lift (attr cemb ''embedding_dim'')) (\<lambda>d2.
           call lib (New LSTM [d1, d2, PInt num_layers] [(''bidirectional'', PBool True)]))))
        (\<lambda>birnn. ret (PObj CharRNN (setattr self ''birnn'' birnn))))"

definition SharedRNN_init ::
  "'a lib \<Rightarrow> int \<Rightarrow> int \<Rightarrow> int \<Rightarrow> int \<Rightarrow> int \<Rightarrow> int \<Rightarrow> 'a pyval \<Rightarrow> int \<Rightarrow> string
     \<Rightarrow> ('a, 'a pyval) run" where
  "SharedRNN_init lib num_word_types shared_layer_size num_char_types word_dim char_dim
       hidden_dim dropout num_layers recurrent_unit =
     (let self = setattr [] ''PAD_ind'' (PInt 0) in
      and_then (lift (attr (PObj SharedRNN self) ''PAD_ind'')) (\<lambda>pad.
      and_then (call lib (New Embedding [PInt num_word_types, PInt word_dim]
                            [(''padding_idx'', pad)])) (\<lambda>wemb.
      let self = setattr self ''wemb'' wemb in
      and_then (lift (attr (PObj SharedRNN self) ''PAD_ind'')) (\<lambda>pad.
      and_then (call lib (New Embedding [PInt num_char_types, PInt char_dim]
                            [(''padding_idx'', pad)])) (\<lambda>cemb.
      let self = setattr self ''cemb'' cemb;
          input_dim = word_dim + 2 * char_dim in
      and_then (lift (attr (PObj SharedRNN self) ''cemb'')) (\<lambda>c.
      and_then (CharRNN_init lib c 1 recurrent_unit) (\<lambda>charRNN.
      let self = setattr self ''charRNN'' charRNN in
      and_then
        (if recurrent_unit = ''gru'' then
           call lib (New GRU [PInt input_dim, PInt hidden_dim, PInt num_layers]
                       [(''bidirectional'', PBool True)])
         else
           call lib (New LSTM [PInt input_dim, PInt hidden_dim, PInt num_layers]
                       [(''bidirectional'', PBool True)]))
        (\<lambda>wordRNN. ret (PObj SharedRNN (setattr self ''wordRNN'' wordRNN))))))))))"

definition NERSpecificRNN_init ::
  "'a lib \<Rightarrow> int \<Rightarrow> int \<Rightarrow> int \<Rightarrow> 'a pyval \<Rightarrow> int \<Rightarrow> string \<Rightarrow> string \<Rightarrow> ('a, 'a pyval) run" where
  "NERSpecificRNN_init lib shared_layer_size num_tag_types hidden_dim dropout num_layers
       activation_type recurrent_unit =
     and_then
       (if recurrent_unit = ''gru'' then
          call lib (New GRU [PInt shared_layer_size, PInt hidden_dim, PInt num_layers]
                      [(''bidirectional'', PBool True)])
        else
          call lib (New LSTM [PInt shared_layer_size, PInt hidden_dim, PInt num_layers]
                      [(''bidirectional'', PBool True)]))
       (\<lambda>birnn.
     let self = setattr [] ''birnn'' birnn in
     and_then
       (if activation_type = ''relu'' then
          and_then (call lib (New ReLU [] [])) (\<lambda>m. ret (setattr self ''FFNNe1'' m))
        else if activation_type = ''tanh'' then
          and_then (call lib (New Tanh [] [])) (\<lambda>m. ret (setattr self ''FFNNe1'' m))
        else if activation_type = ''gelu'' then
          and_then (call lib (New GELU [] [])) (\<lambda>m. ret (setattr self ''FFNNe1'' m))
        else ret self)
       (\<lambda>self.
     and_then (call lib (New Linear [PInt hidden_dim, PInt num_tag_types] [])) (\<lambda>l.
     ret (PObj NERSpecificRNN (setattr self ''FFNNe2'' l)))))"

text \<open>
  The three constructors below share one shape: \<open>input_ = None\<close> (the variable is
  written \<open>input'\<close> here), an activation module is created and immediately called on
  it, the result of that call is stored, and the stored attribute is read back as the first
  argument of \<open>nn.Linear\<close>.
\<close>

definition activation_on :: "'a lib \<Rightarrow> cls \<Rightarrow> 'a pyval \<Rightarrow> ('a, 'a pyval) run" where
  "activation_on lib k input = and_then (call lib (New k [] [])) (\<lambda>m. call lib (Forward m [input]))"

definition RESpecificRNN_init ::
  "'a lib \<Rightarrow> int \<Rightarrow> int \<Rightarrow> int \<Rightarrow> 'a pyval \<Rightarrow> int \<Rightarrow> string \<Rightarrow> string \<Rightarrow> ('a, 'a pyval) run" where
  "RESpecificRNN_init lib shared_layer_size num_rel_types hidden_dim dropout num_layers
       activation_type recurrent_unit =
     (let self = []; input' = PNone in
      and_then
        (if activation_type = ''relu'' then
           and_then (activation_on lib ReLU input') (\<lambda>v. ret (setattr self ''FFNNr1'' v))
         else if activation_type = ''tanh'' then
           and_then (activation_on lib Tanh input') (\<lambda>v. ret (setattr self ''FFNNr1'' v))
         else if activation_type = ''gelu'' then
           and_then (activation_on lib GELU input') (\<lambda>v. ret (setattr self ''FFNNr1'' v))
         else ret self)
        (\<lambda>self.
      and_then (lift (attr (PObj RESpecificRNN self) ''FFNNr1'')) (\<lambda>d.
      and_then (call lib (New Linear [d, PInt num_rel_types] [])) (\<lambda>l.
      ret (PObj RESpecificRNN (setattr self ''FFNNr2'' l))))))"



definition MTLArchitecture_init ::
  "'a lib \<Rightarrow> int \<Rightarrow> int \<Rightarrow> int \<Rightarrow> int \<Rightarrow> int \<Rightarrow> int \<Rightarrow> 'a pyval \<Rightarrow> int \<Rightarrow> int \<Rightarrow> int
     \<Rightarrow> string \<Rightarrow> string \<Rightarrow> ('a, 'a pyval) run" where
  "MTLArchitecture_init lib num_word_types shared_layer_size num_char_types word_dim char_dim
       hidden_dim dropout num_layers num_tag_types num_rel_types activation_type
       recurrent_unit =
     and_then (SharedRNN_init lib num_word_types shared_layer_size num_char_types word_dim
                 char_dim hidden_dim dropout num_layers recurrent_unit) (\<lambda>shared.
     let self = setattr [] ''shared_layers'' shared in
     and_then (NERSpecificRNN_init lib shared_layer_size num_tag_types hidden_dim dropout
                 num_layers activation_type recurrent_unit) (\<lambda>ner.
     let self = setattr self ''ner_layers'' ner in
     and_then (RESpecificRNN_init lib shared_layer_size num_rel_types hidden_dim dropout
                 num_layers activation_type recurrent_unit) (\<lambda>re.
     let self = setattr self ''re_layers'' re in
     and_then (call lib (New CrossEntropyLoss [] [])) (\<lambda>loss.
     ret (PObj MTLArchitecture (setattr self ''loss'' loss))))))"

subsection \<open>SharedBiRNN\<close>

text \<open>The class attributes of SharedBiRNN, read through \<open>self\<close>.\<close>

definition CharDim :: int where
  "CharDim = 32"

definition ELMODim :: int where
  "ELMODim = 1024"

definition GloveDim :: int where
  "GloveDim = 300"

text \<open>
  \<open>SharedBiRNN.__init__\<close> calls the global name \<open>CharBiRNN\<close>. The binding of that
  name is an argument of the model: \<open>None\<close> when the module has no such name, in which
  case evaluating the name raises NameError before any argument of the call is evaluated.
  model.py binds its imports and its eight classes, and \<open>CharBiRNN\<close> is none of them,
  so \<open>SharedBiRNN_init\<close> runs with \<open>None\<close>.
\<close>

definition SharedBiRNN_init_in ::
  "('a lib \<Rightarrow> 'a pyval \<Rightarrow> int \<Rightarrow> string \<Rightarrow> ('a, 'a pyval) run) option
     \<Rightarrow> 'a lib \<Rightarrow> int \<Rightarrow> int \<Rightarrow> int \<Rightarrow> string \<Rightarrow> ('a, 'a pyval) run" where
  "SharedBiRNN_init_in CharBiRNN lib num_word_types num_char_types num_layers recurrent_unit =
     (let self = setattr [] ''Pad_ind'' (PInt 0);
          word_dim = ELMODim + GloveDim + 2 * CharDim in
      and_then (lift (attr (PObj SharedBiRNN self) ''Pad_ind'')) (\<lambda>pad.
      and_then (call lib (New Embedding [PInt num_word_types, PInt word_dim]
                            [(''padding_idx'', pad)])) (\<lambda>wemb.
      let self = setattr self ''wemb'' wemb in
      and_then (lift (attr (PObj SharedBiRNN self) ''Pad_ind'')) (\<lambda>pad.
      and_then (call lib (New Embedding [PInt num_char_types, PInt CharDim]
                            [(''padding_idx'', pad)])) (\<lambda>cemb.
      let self = setattr self ''cemb'' cemb in
      and_then
        (case CharBiRNN of
           None \<Rightarrow> raise NameError
         | Some ctor \<Rightarrow>
             and_then (lift (attr (PObj SharedBiRNN self) ''cemb'')) (\<lambda>c.
             ctor lib c 1 recurrent_unit)) (\<lambda>charRNN.
      let self = setattr self ''charRNN'' charRNN in
      and_then
        (if recurrent_unit = ''gru'' then
           call lib (New GRU []
                       [(''input_size'', PInt word_dim), (''hidden_size'', PInt word_dim),
                        (''num_layers'', PInt num_layers), (''bidirectional'', PBool True)])
         else
           call lib (New LSTM []
                       [(''input_size'', PInt word_dim), (''hidden_size'', PInt word_dim),
                        (''num_layers'', PInt num_layers), (''bidirectional'', PBool True)]))
        (\<lambda>word_birnn. ret (PObj SharedBiRNN (setattr self ''word_birnn'' word_birnn)))))))))"

definition SharedBiRNN_init ::
  "'a lib \<Rightarrow> int \<Rightarrow> int \<Rightarrow> int \<Rightarrow> string \<Rightarrow> ('a, 'a pyval) run" where
  "SharedBiRNN_init = SharedBiRNN_init_in None"

text \<open>
  \<open>SharedBiRNN.forward(self, X)\<close>: three calls, the last result bound to a local
  variable, and the end of the body is reached, so the method returns \<open>None\<close>.
\<close>

definition SharedBiRNN_forward :: "'a lib \<Rightarrow> 'a pyval \<Rightarrow> 'a pyval \<Rightarrow> ('a, 'a pyval) run" where
  "SharedBiRNN_forward lib self X =
     and_then (call lib (Utils load_elmo_weights [X])) (\<lambda>elmo_embeddings.
     and_then (call lib (Utils load_glove_embeddings [X])) (\<lambda>glove_embeddings.
     and_then (call lib (Torch torch_cat [PList [elmo_embeddings, glove_embeddings]]
                           [(''dim'', PInt 2)])) (\<lambda>word_embeddings.
     ret PNone)))"

section \<open>CharRNN.forward\<close>

text \<open>
  The Python and tensor operations that \<open>CharRNN.forward\<close> applies itself, on shapes
  and row-major data. \<open>len\<close> of a tensor is its first dimension. Unpacking into two
  names iterates over the value: a tuple or list must have two items, and a tensor is
  iterated along its first dimension, so it must have first dimension 2 and yields its two
  slices. Objects answered by the environment are taken as not iterable.
\<close>

fun as_int :: "'a pyval \<Rightarrow> int option" where
  "as_int (PInt i) = Some i"
| "as_int _ = None"

fun is_tensor :: "'a pyval \<Rightarrow> bool" where
  "is_tensor (PTensor shp d) = True"
| "is_tensor _ = False"

fun shape_of :: "'a pyval \<Rightarrow> nat list" where
  "shape_of (PTensor shp d) = shp"
| "shape_of _ = []"

definition py_len :: "'a pyval \<Rightarrow> error + int" where
  "py_len v =
     (case v of
        PList xs \<Rightarrow> Inr (int (length xs))
      | PTuple xs \<Rightarrow> Inr (int (length xs))
      | PStr s \<Rightarrow> Inr (int (length s))
      | PTensor shp d \<Rightarrow> (case shp of [] \<Rightarrow> Inl TypeError | n # rest \<Rightarrow> Inr (int n))
      | _ \<Rightarrow> Inl TypeError)"

definition unpack2 :: "'a pyval \<Rightarrow> error + ('a pyval \<times> 'a pyval)" where
  "unpack2 v =
     (case v of
        PTuple xs \<Rightarrow> (case xs of [a, b] \<Rightarrow> Inr (a, b) | _ \<Rightarrow> Inl ValueError)
      | PList xs \<Rightarrow> (case xs of [a, b] \<Rightarrow> Inr (a, b) | _ \<Rightarrow> Inl ValueError)
      | PStr s \<Rightarrow> (case s of [a, b] \<Rightarrow> Inr (PStr [a], PStr [b]) | _ \<Rightarrow> Inl ValueError)
      | PTensor shp d \<Rightarrow>
          (case shp of
             [] \<Rightarrow> Inl TypeError
           | n # rest \<Rightarrow>
               if n = 2
               then Inr (PTensor rest (take (prod_list rest) d),
                         PTensor rest (take (prod_list rest) (drop (prod_list rest) d)))
               else Inl ValueError)
      | _ \<Rightarrow> Inl TypeError)"

text \<open>
  \<open>t.view(*dims)\<close> keeps the data and changes the shape: the sizes must multiply to
  the number of elements, and a single \<open>-1\<close> is inferred from the others.
\<close>

definition infer_view :: "nat \<Rightarrow> int list \<Rightarrow> error + nat list" where
  "infer_view numel dims =
     (if list_ex (\<lambda>d. d < - 1) dims \<or> 1 < count_list dims (- 1) then Inl RuntimeError
      else if count_list dims (- 1) = 1 then
        (let known = prod_list (filter (\<lambda>d. d \<noteq> - 1) dims) in
         if known = 0 \<or> int numel mod known \<noteq> 0 then Inl RuntimeError
         else Inr (map (\<lambda>d. if d = - 1 then nat (int numel div known) else nat d) dims))
      else if prod_list dims = int numel then Inr (map nat dims)
      else Inl RuntimeError)"

definition view :: "'a pyval \<Rightarrow> 'a pyval list \<Rightarrow> error + 'a pyval" where
  "view t dims =
     (case t of
        PTensor shp d \<Rightarrow>
          (case those (map as_int dims) of
             None \<Rightarrow> Inl TypeError
           | Some ds \<Rightarrow>
               (case infer_view (prod_list shp) ds of
                  Inl e \<Rightarrow> Inl e
                | Inr s \<Rightarrow> Inr (PTensor s d)))
      | _ \<Rightarrow> Inl AttributeError)"

text \<open>\<open>t[i]\<close> on a tensor: the slice at \<open>i\<close> of the first dimension, negative \<open>i\<close> from the end.\<close>

definition index0 :: "'a pyval \<Rightarrow> int \<Rightarrow> error + 'a pyval" where
  "index0 t i =
     (case t of
        PTensor shp d \<Rightarrow>
          (case shp of
             [] \<Rightarrow> Inl IndexError
           | n # rest \<Rightarrow>
               (let j = (if i < 0 then int n + i else i) in
                if 0 \<le> j \<and> j < int n
                then Inr (PTensor rest (take (prod_list rest) (drop (nat j * prod_list rest) d)))
                else Inl IndexError))
      | _ \<Rightarrow> Inl TypeError)"

text \<open>The \<open>i\<close>-th run of \<open>k\<close> consecutive elements.\<close>

definition block :: "nat \<Rightarrow> nat \<Rightarrow> 'a list \<Rightarrow> 'a list" where
  "block k i d = take k (drop (i * k) d)"

text \<open>\<open>t.transpose(0, 1)\<close>, followed in the source by \<open>.contiguous()\<close>.\<close>

definition transpose_0_1 :: "'a pyval \<Rightarrow> error + 'a pyval" where
  "transpose_0_1 t =
     (case t of
        PTensor shp d \<Rightarrow>
          (case shp of
             a # b # rest \<Rightarrow>
               Inr (PTensor (b # a # rest)
                     (concat (map (\<lambda>j. concat (map (\<lambda>i. block (prod_list rest) (i * b + j) d)
                                                    [0..<a])) [0..<b])))
           | _ \<Rightarrow> Inl IndexError)
      | _ \<Rightarrow> Inl AttributeError)"

definition contiguous :: "'a pyval \<Rightarrow> error + 'a pyval" where
  "contiguous t = (case t of PTensor shp d \<Rightarrow> Inr t | _ \<Rightarrow> Inl AttributeError)"

definition CharRNN_forward ::
  "'a lib \<Rightarrow> 'a pyval \<Rightarrow> 'a pyval \<Rightarrow> 'a pyval \<Rightarrow> ('a, 'a pyval) run" where
  "CharRNN_forward lib self padded_chars char_lengths =
     and_then (lift (py_len char_lengths)) (\<lambda>B.
     and_then (lift (attr self ''cemb'')) (\<lambda>cemb.
     and_then (call lib (Forward cemb [padded_chars])) (\<lambda>embedded.
     and_then (call lib (Torch pack_padded_sequence [embedded, char_lengths]
                           [(''batch_first'', PBool True), (''enforce_sorted'', PBool False)]))
       (\<lambda>packed.
     and_then (lift (attr self ''birnn'')) (\<lambda>birnn.
     and_then (call lib (Forward birnn [packed])) (\<lambda>result.
     and_then (lift (unpack2 result)) (\<lambda>(output, state).
     and_then (lift (unpack2 state)) (\<lambda>(final_h, final_c).
     and_then (lift (attr birnn ''num_layers'')) (\<lambda>num_layers.
     and_then (lift (attr birnn ''hidden_size'')) (\<lambda>hidden_size.
     and_then (lift (view final_h [num_layers, PInt 2, PInt B, hidden_size])) (\<lambda>v.
     and_then (lift (index0 v (- 1))) (\<lambda>final_h.
     and_then (lift (transpose_0_1 final_h)) (\<lambda>t.
     and_then (lift (contiguous t)) (\<lambda>c.
     and_then (lift (view c [PInt B, PInt (- 1)])) (\<lambda>cembs.
     ret cembs)))))))))))))))"

section \<open>A reference environment\<close>

text \<open>
  PyTorch's answers to the calls that model.py makes, as far as its documentation fixes
  them. The numbers that PyTorch draws at random or computes by arithmetic are not
  modelled: \<open>gen\<close> supplies the contents of a tensor of a given shape (the initial
  weights of a table, the states of a recurrent layer). The loaders of utils.py are a
  parameter. Tensors carry no dtype or device, limits of memory are not modelled, and of the
  options of a call only those named below are (any other is answered TypeError).

  Arguments are bound to parameter names as Python does: by position, then by keyword;
  too many positional arguments, an unknown keyword and a parameter given both ways are
  TypeErrors.
\<close>

definition bind_args :: "string list \<Rightarrow> 'a pyval list \<Rightarrow> 'a attrs \<Rightarrow> error + 'a attrs" where
  "bind_args names args kw =
     (if length names < length args
         \<or> list_ex (\<lambda>key. key \<in> set (take (length args) names) \<or> key \<notin> set names) (map fst kw)
      then Inl TypeError
      else Inr (zip names args @ kw))"

text \<open>Truth of a value given as a flag; a tensor or an object counts as true.\<close>

fun truth :: "'a pyval \<Rightarrow> bool" where
  "truth PNone = False"
| "truth (PBool b) = b"
| "truth (PInt i) = (i \<noteq> 0)"
| "truth (PStr s) = (s \<noteq> [])"
| "truth (PList xs) = (xs \<noteq> [])"
| "truth (PTuple xs) = (xs \<noteq> [])"
| "truth (PTensor shp d) = True"
| "truth (PObj k as) = True"

definition flag :: "'a attrs \<Rightarrow> string \<Rightarrow> bool \<Rightarrow> bool" where
  "flag as name dflt = (case map_of as name of None \<Rightarrow> dflt | Some v \<Rightarrow> truth v)"

text \<open>
  Constructors. A size must be an int (TypeError otherwise), must not be negative and must
  fit 64 bits (RuntimeError otherwise). \<open>nn.Embedding(num_embeddings, embedding_dim,
  padding_idx=None)\<close> asserts that \<open>padding_idx\<close> lies within the table, counts a
  negative one from the end, and zeroes that row of the fresh weights (IndexError in an
  empty table). \<open>nn.GRU\<close> and \<open>nn.LSTM\<close> take \<open>input_size\<close>, \<open>hidden_size\<close>,
  \<open>num_layers=1\<close>, \<open>bias\<close>, \<open>batch_first\<close>, \<open>dropout\<close> and \<open>bidirectional\<close>;
  they raise ValueError unless \<open>dropout\<close> is a number from 0 to 1 and \<open>hidden_size\<close>
  and \<open>num_layers\<close> are positive. \<open>nn.Linear\<close> takes \<open>in_features\<close>,
  \<open>out_features\<close> and \<open>bias\<close>. The activation layers and the loss are constructed
  without arguments, as model.py does. The object answered carries the arguments under
  PyTorch's attribute names.
\<close>

definition size_error :: "int list \<Rightarrow> bool" where
  "size_error ds = list_ex (\<lambda>d. d < 0 \<or> 2 ^ 63 \<le> d) ds"

definition ref_embedding :: "'a pyval list \<Rightarrow> 'a attrs \<Rightarrow> error + 'a pyval" where
  "ref_embedding args kw =
     (case bind_args [''num_embeddings'', ''embedding_dim'', ''padding_idx''] args kw of
        Inl e \<Rightarrow> Inl e
      | Inr b \<Rightarrow>
          (case (map_of b ''num_embeddings'', map_of b ''embedding_dim'',
                 case map_of b ''padding_idx'' of None \<Rightarrow> PNone | Some v \<Rightarrow> v) of
             (Some (PInt n), Some (PInt d), PNone) \<Rightarrow>
               if size_error [n, d] then Inl RuntimeError
               else Inr (PObj Embedding
                           [(''num_embeddings'', PInt n), (''embedding_dim'', PInt d),
                            (''padding_idx'', PNone)])
           | (Some (PInt n), Some (PInt d), PInt p) \<Rightarrow>
               if (0 < p \<and> n \<le> p) \<or> (p < 0 \<and> p < - n) then Inl AssertionError
               else if size_error [n, d] then Inl RuntimeError
               else if n = 0 then Inl IndexError
               else Inr (PObj Embedding
                           [(''num_embeddings'', PInt n), (''embedding_dim'', PInt d),
                            (''padding_idx'', PInt (if p < 0 then n + p else p))])
           | _ \<Rightarrow> Inl TypeError))"

definition ref_rnn :: "cls \<Rightarrow> 'a pyval list \<Rightarrow> 'a attrs \<Rightarrow> error + 'a pyval" where
  "ref_rnn k args kw =
     (case bind_args [''input_size'', ''hidden_size'', ''num_layers'', ''bias'', ''batch_first'',
                      ''dropout'', ''bidirectional''] args kw of
        Inl e \<Rightarrow> Inl e
      | Inr b \<Rightarrow>
          (case (map_of b ''input_size'', map_of b ''hidden_size'',
                 case map_of b ''num_layers'' of None \<Rightarrow> PInt 1 | Some l \<Rightarrow> l) of
             (Some i, Some h, l) \<Rightarrow>
               if (case map_of b ''dropout'' of
                     None \<Rightarrow> False
                   | Some (PInt x) \<Rightarrow> x < 0 \<or> 1 < x
                   | Some v \<Rightarrow> True)
               then Inl ValueError
               else
                 (case (h, l, i) of
                    (PInt h', PInt l', PInt i') \<Rightarrow>
                      if h' \<le> 0 \<or> l' \<le> 0 then Inl ValueError
                      else if size_error [i', (if k = GRU then 3 else 4) * h'] then Inl RuntimeError
                      else Inr (PObj k
                                 ([(''input_size'', PInt i'), (''hidden_size'', PInt h'),
                                   (''num_layers'', PInt l')]
                                  @ filter (\<lambda>(key, v). key \<notin> {''input_size'', ''hidden_size'',
                                                                ''num_layers''}) b))
                  | (PInt h', PInt l', v) \<Rightarrow>
                      if h' \<le> 0 \<or> l' \<le> 0 then Inl ValueError else Inl TypeError
                  | (PInt h', v, w) \<Rightarrow> if h' \<le> 0 then Inl ValueError else Inl TypeError
                  | _ \<Rightarrow> Inl TypeError)
           | _ \<Rightarrow> Inl TypeError))"

definition ref_linear :: "'a pyval list \<Rightarrow> 'a attrs \<Rightarrow> error + 'a pyval" where
  "ref_linear args kw =
     (case bind_args [''in_features'', ''out_features'', ''bias''] args kw of
        Inl e \<Rightarrow> Inl e
      | Inr b \<Rightarrow>
          (case (map_of b ''in_features'', map_of b ''out_features'') of
             (Some (PInt i), Some (PInt out)) \<Rightarrow>
               if size_error [i, out] then Inl RuntimeError
               else Inr (PObj Linear
                           ([(''in_features'', PInt i), (''out_features'', PInt out)]
                            @ filter (\<lambda>(key, v). key \<notin> {''in_features'', ''out_features''}) b))
           | _ \<Rightarrow> Inl TypeError))"

definition ref_new :: "cls \<Rightarrow> 'a pyval list \<Rightarrow> 'a attrs \<Rightarrow> error + 'a pyval" where
  "ref_new k args kw =
     (if k = Embedding then ref_embedding args kw
      else if k = GRU \<or> k = LSTM then ref_rnn k args kw
      else if k = Linear then ref_linear args kw
      else if k \<in> {ReLU, Tanh, GELU, CrossEntropyLoss} then
        (if args = [] \<and> kw = [] then Inr (PObj k []) else Inl TypeError)
      else Inl TypeError)"

text \<open>
  \<open>pack_padded_sequence(input, lengths, batch_first=False, enforce_sorted=True)\<close>. The
  lengths are a list, a tuple or a one-dimensional tensor of integers. With
  \<open>enforce_sorted=False\<close> the sequences are selected in the order of decreasing length,
  so the batch of the result has as many sequences as there are lengths (IndexError when
  there are more lengths than sequences); otherwise the lengths must be as many as the
  sequences and decreasing. An empty selection and a length outside \<open>1..T\<close> are
  rejected. The result carries the packed data, one row per time step of every sequence,
  and the number of sequences alive at each time step.
\<close>

definition row_index :: "nat \<Rightarrow> 'a :: semiring_1 \<Rightarrow> nat option" where
  "row_index n x = List.find (\<lambda>i. of_nat i = x) [0..<n]"

definition batch_sizes :: "int list \<Rightarrow> int list" where
  "batch_sizes lens =
     map (\<lambda>t. int (length (filter (\<lambda>l. int t < l) lens))) [0..<nat (Max (set (0 # lens)))]"

definition lengths_of :: "nat \<Rightarrow> 'a :: semiring_1 pyval \<Rightarrow> error + int list" where
  "lengths_of T v =
     (case v of
        PList xs \<Rightarrow> (case those (map as_int xs) of None \<Rightarrow> Inl TypeError | Some ls \<Rightarrow> Inr ls)
      | PTuple xs \<Rightarrow> (case those (map as_int xs) of None \<Rightarrow> Inl TypeError | Some ls \<Rightarrow> Inr ls)
      | PTensor shp d \<Rightarrow>
          (case shp of
             [n] \<Rightarrow>
               (case those (map (row_index (Suc T)) d) of
                  None \<Rightarrow> Inl RuntimeError
                | Some ls \<Rightarrow> Inr (map int ls))
           | _ \<Rightarrow> Inl RuntimeError)
      | _ \<Rightarrow> Inl TypeError)"

definition ref_pack ::
  "(nat list \<Rightarrow> 'a list) \<Rightarrow> 'a :: semiring_1 pyval list \<Rightarrow> 'a attrs \<Rightarrow> error + 'a pyval" where
  "ref_pack gen args kw =
     (case bind_args [''input'', ''lengths'', ''batch_first'', ''enforce_sorted''] args kw of
        Inl e \<Rightarrow> Inl e
      | Inr b \<Rightarrow>
          (case (map_of b ''input'', map_of b ''lengths'') of
             (Some (PTensor shp x), Some lengths) \<Rightarrow>
               (case (if flag b ''batch_first'' False then shp
                      else (case shp of t # n # rest \<Rightarrow> n # t # rest | _ \<Rightarrow> shp)) of
                  B # T # rest \<Rightarrow>
                    (case lengths_of T lengths of
                       Inl e \<Rightarrow> Inl e
                     | Inr lens \<Rightarrow>
                         if \<not> flag b ''enforce_sorted'' True \<and> B < length lens
                         then Inl IndexError
                         else if (flag b ''enforce_sorted'' True
                                  \<and> (length lens \<noteq> B \<or> \<not> sorted (rev lens)))
                              \<or> length lens * T * prod_list rest = 0
                              \<or> \<not> list_all (\<lambda>l. 0 < l \<and> l \<le> int T) lens
                         then Inl RuntimeError
                         else Inr (PObj PackedSequence
                                    [(''data'', PTensor (nat (sum_list lens) # rest)
                                                 (gen (nat (sum_list lens) # rest))),
                                     (''batch_sizes'', PList (map PInt (batch_sizes lens)))]))
                | _ \<Rightarrow> Inl IndexError)
           | (Some v, Some lengths) \<Rightarrow>
               if flag b ''enforce_sorted'' True then Inl TypeError else Inl AttributeError
           | _ \<Rightarrow> Inl TypeError))"

text \<open>
  \<open>torch.cat(tensors, dim=0)\<close>: the tensors agree in every dimension but \<open>dim\<close>,
  along which the sizes add up; a negative \<open>dim\<close> counts from the end and a \<open>dim\<close>
  outside the rank is an IndexError.
\<close>

definition ref_cat :: "(nat list \<Rightarrow> 'a list) \<Rightarrow> 'a pyval list \<Rightarrow> 'a attrs \<Rightarrow> error + 'a pyval" where
  "ref_cat gen args kw =
     (case bind_args [''tensors'', ''dim''] args kw of
        Inl e \<Rightarrow> Inl e
      | Inr b \<Rightarrow>
          (case (case map_of b ''tensors'' of
                   Some (PList ts) \<Rightarrow> Some ts
                 | Some (PTuple ts) \<Rightarrow> Some ts
                 | _ \<Rightarrow> None,
                 case map_of b ''dim'' of None \<Rightarrow> PInt 0 | Some v \<Rightarrow> v) of
             (Some ts, PInt k) \<Rightarrow>
               if \<not> list_all is_tensor ts then Inl TypeError
               else if ts = [] then Inl RuntimeError
               else
                 (let s0 = shape_of (hd ts); r = int (length s0) in
                  if r = 0 then Inl RuntimeError
                  else if k < - r \<or> r \<le> k then Inl IndexError
                  else
                    (let j = nat (k mod r) in
                     if list_all (\<lambda>t. length (shape_of t) = length s0
                                      \<and> (shape_of t)[j := 0] = s0[j := 0]) ts
                     then (let s = s0[j := sum_list (map (\<lambda>t. shape_of t ! j) ts)]
                           in Inr (PTensor s (gen s)))
                     else Inl RuntimeError))
           | _ \<Rightarrow> Inl TypeError))"

text \<open>
  Applying a layer to one argument. An activation layer applied to anything but a tensor
  raises TypeError. An embedding table looks every index up in its weights, whose row
  \<open>padding_idx\<close> is zero, and appends the embedding dimension to the shape; an index
  outside the table is an IndexError. A linear layer replaces the last dimension. A GRU
  applied to a packed batch, to a batch of shape \<open>(T, B, input_size)\<close>
  (\<open>(B, T, input_size)\<close> with \<open>batch_first\<close>) or to a single sequence of shape
  \<open>(T, input_size)\<close> answers \<open>(output, h_n)\<close>, and an LSTM
  \<open>(output, (h_n, c_n))\<close>; the states have shape
  \<open>(directions * num_layers, B, hidden_size)\<close>, without \<open>B\<close> for a single sequence.
  A recurrent layer asks its argument for \<open>dim()\<close>, so anything but a tensor or a packed
  batch is an AttributeError. Initial states as a second argument and applying the loss
  are not modelled.
\<close>

definition embedding_row ::
  "(nat list \<Rightarrow> 'a list) \<Rightarrow> nat \<Rightarrow> nat \<Rightarrow> 'a pyval option \<Rightarrow> nat \<Rightarrow> 'a :: semiring_1 list" where
  "embedding_row gen n d pad i =
     (if pad = Some (PInt (int i)) then replicate d 0 else block d i (gen [n, d]))"

definition ref_lookup ::
  "(nat list \<Rightarrow> 'a list) \<Rightarrow> 'a :: semiring_1 attrs \<Rightarrow> 'a pyval list \<Rightarrow> error + 'a pyval" where
  "ref_lookup gen as args =
     (case (args, map_of as ''num_embeddings'', map_of as ''embedding_dim'') of
        ([PTensor shp idx], Some (PInt n), Some (PInt d)) \<Rightarrow>
          (case those (map (row_index (nat n)) idx) of
             None \<Rightarrow> Inl IndexError
           | Some rows \<Rightarrow>
               Inr (PTensor (shp @ [nat d])
                     (concat (map (embedding_row gen (nat n) (nat d) (map_of as ''padding_idx''))
                                rows))))
      | _ \<Rightarrow> Inl TypeError)"

definition ref_apply_linear ::
  "(nat list \<Rightarrow> 'a list) \<Rightarrow> 'a attrs \<Rightarrow> 'a pyval list \<Rightarrow> error + 'a pyval" where
  "ref_apply_linear gen as args =
     (case (args, map_of as ''in_features'', map_of as ''out_features'') of
        ([PTensor shp x], Some (PInt i), Some (PInt out)) \<Rightarrow>
          if shp \<noteq> [] \<and> int (last shp) = i
          then Inr (PTensor (butlast shp @ [nat out]) (gen (butlast shp @ [nat out])))
          else Inl RuntimeError
      | _ \<Rightarrow> Inl TypeError)"

definition ref_states ::
  "(nat list \<Rightarrow> 'a list) \<Rightarrow> cls \<Rightarrow> 'a pyval \<Rightarrow> nat list \<Rightarrow> error + 'a pyval" where
  "ref_states gen k out hshape =
     (let state = PTensor hshape (gen hshape)
      in if k = GRU then Inr (PTuple [out, state])
         else Inr (PTuple [out, PTuple [state, state]]))"

definition ref_apply_rnn ::
  "(nat list \<Rightarrow> 'a list) \<Rightarrow> cls \<Rightarrow> 'a attrs \<Rightarrow> 'a pyval list \<Rightarrow> error + 'a pyval" where
  "ref_apply_rnn gen k as args =
     (case (map_of as ''input_size'', map_of as ''hidden_size'', map_of as ''num_layers'') of
        (Some (PInt i), Some (PInt h), Some (PInt l)) \<Rightarrow>
          (let dirs = (if flag as ''bidirectional'' False then 2 else 1);
               width = dirs * nat h;
               layers = dirs * nat l
           in case args of
             [PObj c ps] \<Rightarrow>
               if c \<noteq> PackedSequence then Inl AttributeError
               else
                 (case (map_of ps ''data'', map_of ps ''batch_sizes'') of
                    (Some (PTensor [rows, d] x), Some (PList (PInt b # bs))) \<Rightarrow>
                      if int d \<noteq> i then Inl RuntimeError
                      else ref_states gen k
                             (PObj PackedSequence
                                [(''data'', PTensor [rows, width] (gen [rows, width])),
                                 (''batch_sizes'', PList (PInt b # bs))])
                             [layers, nat b, nat h]
                  | (Some (PTensor shp x), Some bs) \<Rightarrow> Inl RuntimeError
                  | _ \<Rightarrow> Inl TypeError)
           | [PTensor [T, d] x] \<Rightarrow>
               if int d \<noteq> i then Inl RuntimeError
               else ref_states gen k (PTensor [T, width] (gen [T, width])) [layers, nat h]
           | [PTensor [m, n, d] x] \<Rightarrow>
               if int d \<noteq> i then Inl RuntimeError
               else ref_states gen k (PTensor [m, n, width] (gen [m, n, width]))
                      [layers, if flag as ''batch_first'' False then m else n, nat h]
           | [PTensor shp x] \<Rightarrow> Inl ValueError
           | [v] \<Rightarrow> Inl AttributeError
           | _ \<Rightarrow> Inl TypeError)
      | _ \<Rightarrow> Inl TypeError)"

definition ref_forward ::
  "(nat list \<Rightarrow> 'a list) \<Rightarrow> 'a :: semiring_1 pyval \<Rightarrow> 'a pyval list \<Rightarrow> error + 'a pyval" where
  "ref_forward gen m args =
     (case m of
        PObj k as \<Rightarrow>
          (if k \<in> {ReLU, Tanh, GELU} then
             (case args of
                [PTensor shp d] \<Rightarrow> Inr (PTensor shp (gen shp))
              | _ \<Rightarrow> Inl TypeError)
           else if k = Embedding then ref_lookup gen as args
           else if k = Linear then ref_apply_linear gen as args
           else if k = GRU \<or> k = LSTM then ref_apply_rnn gen k as args
           else Inl TypeError)
      | _ \<Rightarrow> Inl TypeError)"

definition torch_ref ::
  "(nat list \<Rightarrow> 'a list) \<Rightarrow> (utils_fn \<Rightarrow> 'a pyval list \<Rightarrow> error + 'a pyval)
     \<Rightarrow> 'a :: semiring_1 lib" where
  "torch_ref gen utils c =
     (case c of
        New k args kw \<Rightarrow> ref_new k args kw
      | Forward m args \<Rightarrow> ref_forward gen m args
      | Torch f args kw \<Rightarrow>
          (case f of
             pack_padded_sequence \<Rightarrow> ref_pack gen args kw
           | torch_cat \<Rightarrow> ref_cat gen args kw)
      | Utils f args \<Rightarrow> utils f args)"

text \<open>Contents and loaders for concrete evaluations: a result tensor counts its elements.\<close>

definition iota :: "nat list \<Rightarrow> nat list" where
  "iota s = [0..<prod_list s]"

definition demo_utils :: "utils_fn \<Rightarrow> nat pyval list \<Rightarrow> error + nat pyval" where
  "demo_utils f args =
     (case args of
        [PTensor [B, T] x] \<Rightarrow>
          (case f of
             load_elmo_weights \<Rightarrow> Inr (PTensor [B, T, 1024] (iota [B, T, 1024]))
           | load_glove_embeddings \<Rightarrow> Inr (PTensor [B, T, 300] (iota [B, T, 300])))
      | _ \<Rightarrow> Inl TypeError)"

text \<open>
  An environment in which every construction and every application is answered: a
  construction by a bare object of the class, an application by the integer 7. It shows what
  the code goes on to do where PyTorch would have raised.
\<close>

definition lenient_env :: "'a lib" where
  "lenient_env c =
     (case c of
        New k args kw \<Rightarrow> Inr (PObj k [])
      | Forward m args \<Rightarrow> Inr (PInt 7)
      | _ \<Rightarrow> Inl TypeError)"

section \<open>Properties of calls\<close>

text \<open>A property of every call in the log of a run.\<close>

definition every_call :: "('a call \<Rightarrow> bool) \<Rightarrow> ('a, 'r) run \<Rightarrow> bool" where
  "every_call P m = list_all P (snd m)"

text \<open>
  A call that constructs a recurrent layer asks for a bidirectional one, of the class the
  selector stands for.
\<close>

definition rnn_ok :: "string \<Rightarrow> 'a call \<Rightarrow> bool" where
  "rnn_ok recurrent_unit c =
     (case c of
        New k args kw \<Rightarrow>
          (k = GRU \<or> k = LSTM) \<longrightarrow>
            map_of kw ''bidirectional'' = Some (PBool True) \<and> k = rnn_cls recurrent_unit
      | _ \<Rightarrow> True)"

definition builds_rnn :: "'a call \<Rightarrow> bool" where
  "builds_rnn c = (case c of New k args kw \<Rightarrow> k = GRU \<or> k = LSTM | _ \<Rightarrow> False)"

definition builds_embedding :: "'a call \<Rightarrow> bool" where
  "builds_embedding c = (case c of New k args kw \<Rightarrow> k = Embedding | _ \<Rightarrow> False)"

text \<open>A call that constructs an embedding table passes \<open>padding_idx=0\<close>.\<close>

definition emb_ok :: "'a call \<Rightarrow> bool" where
  "emb_ok c =
     (case c of
        New k args kw \<Rightarrow> k = Embedding \<longrightarrow> map_of kw ''padding_idx'' = Some (PInt 0)
      | _ \<Rightarrow> True)"

text \<open>A call of a loader of utils.py or of \<open>torch.cat\<close>: no layer is built or applied.\<close>

definition loader_or_cat :: "'a call \<Rightarrow> bool" where
  "loader_or_cat c =
     (case c of
        Utils f args \<Rightarrow> True
      | Torch f args kw \<Rightarrow> f = torch_cat
      | _ \<Rightarrow> False)"



section \<open>Properties of runs\<close>

lemma every_call_ret: "every_call P (ret v)"
  by (simp add: every_call_def ret_def)

lemma every_call_raise: "every_call P (raise e)"
  by (simp add: every_call_def raise_def)

lemma every_call_lift: "every_call P (lift r)"
  by (simp add: every_call_def lift_def)

lemma every_call_call: "P c \<Longrightarrow> every_call P (call lib c)"
  by (simp add: every_call_def call_def)

lemma and_then_Inl: "and_then (Inl e, log) f = (Inl e, log)"
  by (simp add: and_then_def)

lemma and_then_Inr: "and_then (Inr v, log) f = (case f v of (r, log') \<Rightarrow> (r, log @ log'))"
  by (simp add: and_then_def)

lemma and_then_unfold:
  "and_then m f =
     (case fst m of
        Inl e \<Rightarrow> (Inl e, snd m)
      | Inr v \<Rightarrow> (fst (f v), snd m @ snd (f v)))"
  by (cases m; cases "fst m") (auto simp: and_then_def split: prod.splits)

lemma every_call_and_then:
  "every_call P m \<Longrightarrow> (\<And>v. every_call P (f v)) \<Longrightarrow> every_call P (and_then m f)"
  by (simp add: every_call_def and_then_unfold split: sum.splits)

lemma every_call_lift_then:
  "(\<And>v. r = Inr v \<Longrightarrow> every_call P (f v)) \<Longrightarrow> every_call P (and_then (lift r) f)"
  by (cases r) (simp_all add: every_call_def and_then_unfold lift_def)

lemma fst_and_then:
  "fst (and_then m f) = (case fst m of Inl e \<Rightarrow> Inl e | Inr v \<Rightarrow> fst (f v))"
  by (simp add: and_then_unfold split: sum.splits)

lemma snd_and_then:
  "snd (and_then m f) = snd m @ (case fst m of Inl e \<Rightarrow> [] | Inr v \<Rightarrow> snd (f v))"
  by (simp add: and_then_unfold split: sum.splits)

lemma fst_and_then_Inr:
  "fst (and_then m f) = Inr x \<longleftrightarrow> (\<exists>v. fst m = Inr v \<and> fst (f v) = Inr x)"
  by (simp add: fst_and_then split: sum.splits)

lemma and_then_ret: "and_then (ret v) f = f v"
  by (simp add: and_then_def ret_def split: prod.splits)

lemma every_call_if:
  "(b \<Longrightarrow> every_call P m) \<Longrightarrow> (\<not> b \<Longrightarrow> every_call P n) \<Longrightarrow> every_call P (if b then m else n)"
  by simp

lemmas every_call_intros =
  every_call_and_then every_call_if every_call_ret every_call_raise every_call_lift

lemmas run_defs =
  and_then_unfold call_def lift_def ret_def raise_def setattr_def outcome_def calls_def

lemmas run_simps =
  and_then_Inl and_then_Inr call_def lift_def ret_def raise_def setattr_def outcome_def
  calls_def Let_def

lemmas run_proj =
  fst_and_then snd_and_then call_def lift_def ret_def raise_def setattr_def outcome_def
  calls_def Let_def

lemmas ref_defs =
  torch_ref_def ref_new_def ref_forward_def ref_embedding_def ref_rnn_def ref_linear_def
  bind_args_def flag_def size_error_def ref_apply_rnn_def ref_apply_linear_def ref_states_def

lemmas init_defs =
  MTLArchitecture_init_def SharedRNN_init_def CharRNN_init_def NERSpecificRNN_init_def
  RESpecificRNN_init_def activation_on_def

subsection \<open>Recurrent layers\<close>

lemma CharRNN_init_rnn_ok: "every_call (rnn_ok ru) (CharRNN_init lib cemb n ru)"
  unfolding CharRNN_init_def Let_def
  by (intro every_call_intros every_call_call) (simp_all add: rnn_ok_def rnn_cls_def)

lemma SharedRNN_init_rnn_ok:
  "every_call (rnn_ok ru) (SharedRNN_init lib nw sls nc wd cd hdim dr nl ru)"
  unfolding SharedRNN_init_def Let_def
  by (intro every_call_intros every_call_call CharRNN_init_rnn_ok)
     (simp_all add: rnn_ok_def rnn_cls_def)

lemma NERSpecificRNN_init_rnn_ok:
  "every_call (rnn_ok ru) (NERSpecificRNN_init lib sls nt hdim dr nl act ru)"
  unfolding NERSpecificRNN_init_def Let_def
  by (intro every_call_intros every_call_call) (simp_all add: rnn_ok_def rnn_cls_def)

lemma RESpecificRNN_init_rnn_ok:
  "every_call (rnn_ok ru) (RESpecificRNN_init lib sls nr hdim dr nl act ru)"
  unfolding RESpecificRNN_init_def Let_def activation_on_def
  by (intro every_call_intros every_call_call) (simp_all add: rnn_ok_def rnn_cls_def)

lemma MTLArchitecture_init_rnn_ok:
  "every_call (rnn_ok ru) (MTLArchitecture_init lib nw sls nc wd cd hdim dr nl nt nr act ru)"
  unfolding MTLArchitecture_init_def Let_def
  by (intro every_call_intros every_call_call SharedRNN_init_rnn_ok
        NERSpecificRNN_init_rnn_ok RESpecificRNN_init_rnn_ok)
     (simp_all add: rnn_ok_def)

lemma SharedBiRNN_init_in_rnn_ok:
  "(\<And>l c n r. every_call (rnn_ok r) (ctor l c n r)) \<Longrightarrow>
   every_call (rnn_ok ru) (SharedBiRNN_init_in (Some ctor) lib nw nc nl ru)"
  unfolding SharedBiRNN_init_in_def Let_def
  by (intro every_call_intros every_call_call)
     (simp_all add: rnn_ok_def rnn_cls_def every_call_intros)

lemma SharedBiRNN_init_rnn_ok: "every_call (rnn_ok ru) (SharedBiRNN_init lib nw nc nl ru)"
  unfolding SharedBiRNN_init_def SharedBiRNN_init_in_def Let_def
  by (intro every_call_intros every_call_call)
     (simp_all add: rnn_ok_def rnn_cls_def every_call_raise)

lemma NERSpecificRNN_init_first_call:
  "calls (NERSpecificRNN_init lib sls nt hdim dr nl act ru) \<noteq> [] \<and>
   hd (calls (NERSpecificRNN_init lib sls nt hdim dr nl act ru)) =
     New (rnn_cls ru) [PInt sls, PInt hdim, PInt nl] [(''bidirectional'', PBool True)]"
  by (simp add: NERSpecificRNN_init_def run_defs rnn_cls_def split: sum.splits)

text \<open>
  Claim C7. Every call that constructs a recurrent layer, in the runs of the constructors
  of SharedRNN, NERSpecificRNN, CharRNN and SharedBiRNN and hence of MTLArchitecture, passes
  \<open>bidirectional=True\<close> and constructs a GRU when \<open>recurrent_unit\<close> is \<open>"gru"\<close> and an
  LSTM for every other value. NERSpecificRNN always makes such a call (it is its first).
  SharedBiRNN as written stops at the unbound name before its recurrent layer; the layer
  that its code would build under any binding of that name is bidirectional as well.
\<close>

theorem recurrent_layers_bidirectional:
  "every_call (rnn_ok recurrent_unit)
     (SharedRNN_init lib nw sls nc wd cd hdim dr nl recurrent_unit)
   \<and> every_call (rnn_ok recurrent_unit)
       (NERSpecificRNN_init lib sls nt hdim dr nl act recurrent_unit)
   \<and> every_call (rnn_ok recurrent_unit) (CharRNN_init lib cemb n recurrent_unit)
   \<and> every_call (rnn_ok recurrent_unit) (SharedBiRNN_init lib nw nc nl recurrent_unit)
   \<and> (\<forall>ctor. (\<forall>l c k r. every_call (rnn_ok r) (ctor l c k r)) \<longrightarrow>
         every_call (rnn_ok recurrent_unit)
           (SharedBiRNN_init_in (Some ctor) lib nw nc nl recurrent_unit))
   \<and> every_call (rnn_ok recurrent_unit)
       (MTLArchitecture_init lib nw sls nc wd cd hdim dr nl nt nr act recurrent_unit)
   \<and> rnn_cls recurrent_unit = (if recurrent_unit = ''gru'' then GRU else LSTM)
   \<and> calls (NERSpecificRNN_init lib sls nt hdim dr nl act recurrent_unit) \<noteq> []
   \<and> hd (calls (NERSpecificRNN_init lib sls nt hdim dr nl act recurrent_unit)) =
       New (rnn_cls recurrent_unit) [PInt sls, PInt hdim, PInt nl]
         [(''bidirectional'', PBool True)]"
  by (intro conjI allI impI SharedRNN_init_rnn_ok NERSpecificRNN_init_rnn_ok
        CharRNN_init_rnn_ok SharedBiRNN_init_rnn_ok SharedBiRNN_init_in_rnn_ok
        MTLArchitecture_init_rnn_ok)
     (simp_all add: NERSpecificRNN_init_first_call, simp add: rnn_cls_def)

theorem recurrent_layers_bidirectional_witness:
  "every_call (rnn_ok ''gru'')
     (MTLArchitecture_init (torch_ref iota demo_utils) 100 64 50 30 16 32 PNone 1 9 5 ''relu'' ''gru'')
   \<and> filter builds_rnn
       (calls (MTLArchitecture_init (torch_ref iota demo_utils) 100 64 50 30 16 32 PNone 1 9 5 ''relu'' ''gru'')) =
      [New GRU [PInt 16, PInt 16, PInt 1] [(''bidirectional'', PBool True)],
       New GRU [PInt 62, PInt 32, PInt 1] [(''bidirectional'', PBool True)],
       New GRU [PInt 64, PInt 32, PInt 1] [(''bidirectional'', PBool True)]]
   \<and> filter builds_rnn
       (calls (SharedBiRNN_init_in (Some CharRNN_init) (torch_ref iota demo_utils) 100 50 2 ''lstm'')) =
      [New LSTM [PInt 32, PInt 32, PInt 1] [(''bidirectional'', PBool True)],
       New LSTM [] [(''input_size'', PInt 1388), (''hidden_size'', PInt 1388),
                    (''num_layers'', PInt 2), (''bidirectional'', PBool True)]]
   \<and> every_call (rnn_ok ''lstm'') (SharedBiRNN_init_in (Some CharRNN_init) (torch_ref iota demo_utils) 100 50 2 ''lstm'')"
proof -
  note t = recurrent_layers_bidirectional
  have a: "every_call (rnn_ok ''gru'')
     (MTLArchitecture_init (torch_ref iota demo_utils) 100 64 50 30 16 32 PNone 1 9 5 ''relu'' ''gru'')"
    using t[where recurrent_unit="''gru''" and lib="torch_ref iota demo_utils" and nw=100 and sls=64 and nc=50 and wd=30 and cd=16 and hdim=32 and dr=PNone and nl=1 and nt=9 and nr=5 and act="''relu''"] by blast
  have d: "every_call (rnn_ok ''lstm'') (SharedBiRNN_init_in (Some CharRNN_init) (torch_ref iota demo_utils) 100 50 2 ''lstm'')"
    using t[where recurrent_unit="''lstm''" and lib="torch_ref iota demo_utils" and nw=100 and nc=50 and nl=2] CharRNN_init_rnn_ok by blast
  have b: "filter builds_rnn
       (calls (MTLArchitecture_init (torch_ref iota demo_utils) 100 64 50 30 16 32 PNone 1 9 5 ''relu'' ''gru'')) =
      [New GRU [PInt 16, PInt 16, PInt 1] [(''bidirectional'', PBool True)],
       New GRU [PInt 62, PInt 32, PInt 1] [(''bidirectional'', PBool True)],
       New GRU [PInt 64, PInt 32, PInt 1] [(''bidirectional'', PBool True)]]"
    by (simp add: init_defs run_simps ref_defs Let_def builds_rnn_def)
  have c: "filter builds_rnn
       (calls (SharedBiRNN_init_in (Some CharRNN_init) (torch_ref iota demo_utils) 100 50 2 ''lstm'')) =
      [New LSTM [PInt 32, PInt 32, PInt 1] [(''bidirectional'', PBool True)],
       New LSTM [] [(''input_size'', PInt 1388), (''hidden_size'', PInt 1388),
                    (''num_layers'', PInt 2), (''bidirectional'', PBool True)]]"
    by (simp add: SharedBiRNN_init_in_def init_defs run_simps ref_defs Let_def builds_rnn_def ELMODim_def GloveDim_def CharDim_def)
  show ?thesis using a b c d by blast
qed

subsection \<open>Embedding tables\<close>

lemma CharRNN_init_emb_ok: "every_call emb_ok (CharRNN_init lib cemb n ru)"
  unfolding CharRNN_init_def Let_def
  by (intro every_call_intros every_call_call) (simp_all add: emb_ok_def)

lemma SharedRNN_init_emb_ok:
  "every_call emb_ok (SharedRNN_init lib nw sls nc wd cd hdim dr nl ru)"
  unfolding SharedRNN_init_def Let_def
  by (intro every_call_lift_then every_call_intros every_call_call CharRNN_init_emb_ok)
     (simp_all add: emb_ok_def setattr_def)

lemma NERSpecificRNN_init_emb_ok:
  "every_call emb_ok (NERSpecificRNN_init lib sls nt hdim dr nl act ru)"
  unfolding NERSpecificRNN_init_def Let_def
  by (intro every_call_intros every_call_call) (simp_all add: emb_ok_def)

lemma RESpecificRNN_init_emb_ok:
  "every_call emb_ok (RESpecificRNN_init lib sls nr hdim dr nl act ru)"
  unfolding RESpecificRNN_init_def Let_def activation_on_def
  by (intro every_call_intros every_call_call) (simp_all add: emb_ok_def)

lemma MTLArchitecture_init_emb_ok:
  "every_call emb_ok (MTLArchitecture_init lib nw sls nc wd cd hdim dr nl nt nr act ru)"
  unfolding MTLArchitecture_init_def Let_def
  by (intro every_call_intros every_call_call SharedRNN_init_emb_ok
        NERSpecificRNN_init_emb_ok RESpecificRNN_init_emb_ok)
     (simp_all add: emb_ok_def)

lemma SharedBiRNN_init_emb_ok: "every_call emb_ok (SharedBiRNN_init lib nw nc nl ru)"
  unfolding SharedBiRNN_init_def SharedBiRNN_init_in_def Let_def
  by (intro every_call_lift_then every_call_intros every_call_call)
     (simp_all add: emb_ok_def setattr_def every_call_raise)

lemma SharedRNN_init_tables:
  "take 1 (calls (SharedRNN_init lib nw sls nc wd cd hdim dr nl ru)) =
     [New Embedding [PInt nw, PInt wd] [(''padding_idx'', PInt 0)]]
   \<and> (\<forall>wemb. lib (New Embedding [PInt nw, PInt wd] [(''padding_idx'', PInt 0)]) = Inr wemb \<longrightarrow>
        take 2 (calls (SharedRNN_init lib nw sls nc wd cd hdim dr nl ru)) =
          [New Embedding [PInt nw, PInt wd] [(''padding_idx'', PInt 0)],
           New Embedding [PInt nc, PInt cd] [(''padding_idx'', PInt 0)]])"
  by (simp add: SharedRNN_init_def run_proj)

lemma SharedBiRNN_init_tables:
  "take 1 (calls (SharedBiRNN_init lib nw nc nl ru)) =
     [New Embedding [PInt nw, PInt 1388] [(''padding_idx'', PInt 0)]]
   \<and> (\<forall>wemb. lib (New Embedding [PInt nw, PInt 1388] [(''padding_idx'', PInt 0)]) = Inr wemb \<longrightarrow>
        take 2 (calls (SharedBiRNN_init lib nw nc nl ru)) =
          [New Embedding [PInt nw, PInt 1388] [(''padding_idx'', PInt 0)],
           New Embedding [PInt nc, PInt 32] [(''padding_idx'', PInt 0)]])"
  by (simp add: SharedBiRNN_init_def SharedBiRNN_init_in_def ELMODim_def GloveDim_def
        CharDim_def run_proj)

lemma SharedRNN_init_PAD_ind:
  "outcome (SharedRNN_init lib nw sls nc wd cd hdim dr nl ru) = Inr obj \<Longrightarrow>
   attr obj ''PAD_ind'' = Inr (PInt 0)"
  by (auto simp add: SharedRNN_init_def outcome_def fst_and_then_Inr lift_def call_def
        ret_def setattr_def Let_def split: if_splits)

lemma ref_lookup_5_3:
  "ref_lookup iota [(''num_embeddings'', PInt 5), (''embedding_dim'', PInt 3),
                    (''padding_idx'', PInt 0)] [PTensor [2, 3] [Suc 0, 2, 3, 4, Suc 0, 0]] =
     Inr (PTensor [2, 3, 3] [3, 4, 5, 6, 7, 8, 9, 10, 11, 12, 13, 14, 3, 4, 5, 0, 0, 0])"
  by code_simp

lemma those_map_length: "those (map f xs) = Some ys \<Longrightarrow> length ys = length xs"
  by (induction xs arbitrary: ys) (auto split: option.splits)

lemma those_map_nth:
  "those (map f xs) = Some ys \<Longrightarrow> k < length xs \<Longrightarrow> f (xs ! k) = Some (ys ! k)"
proof (induction xs arbitrary: ys k)
  case Nil
  then show ?case by simp
next
  case (Cons x xs)
  then show ?case
    by (cases k) (auto split: option.splits)
qed

lemma those_map_all:
  "those (map f xs) = Some ys \<Longrightarrow> y \<in> set ys \<Longrightarrow> \<exists>x \<in> set xs. f x = Some y"
proof (induction xs arbitrary: ys)
  case Nil
  then show ?case by simp
next
  case (Cons x xs)
  then show ?case
    by (auto split: option.splits)
qed

lemma row_index_less: "row_index n x = Some i \<Longrightarrow> i < n"
  by (auto simp add: row_index_def find_Some_iff)

lemma row_index_zero:
  assumes "row_index n (0 :: 'a :: semiring_1) = Some i"
  shows "i = 0"
proof (rule ccontr)
  assume "i \<noteq> 0"
  from assms obtain j where j: "j < n" "i = [0..<n] ! j"
    and least: "\<forall>m<j. \<not> (of_nat ([0..<n] ! m) = (0 :: 'a))"
    by (auto simp add: row_index_def find_Some_iff)
  from j \<open>i \<noteq> 0\<close> have "0 < j"
    by simp
  with least j(1) show False
    by (auto dest: spec[of _ 0])
qed

lemma block_concat:
  "\<forall>r \<in> set rs. length r = d \<Longrightarrow> k < length rs \<Longrightarrow> block d k (concat rs) = rs ! k"
proof (induction rs arbitrary: k)
  case Nil
  then show ?case by simp
next
  case (Cons r rs)
  show ?case
  proof (cases k)
    case 0
    with Cons.prems show ?thesis
      by (simp add: block_def)
  next
    case (Suc m)
    with Cons.prems have "block d m (concat rs) = rs ! m"
      using Cons.IH[of m] by simp
    with Suc Cons.prems show ?thesis
      by (simp add: block_def)
  qed
qed

lemma embedding_row_length:
  assumes "length (gen [n, d]) = n * d" and "i < n"
  shows "length (embedding_row gen n d pad i) = d"
proof -
  have "(i + 1) * d \<le> n * d"
    using assms(2) by (intro mult_le_mono1) simp
  then have "d \<le> n * d - i * d"
    by (simp add: algebra_simps)
  then show ?thesis
    using assms(1) by (simp add: embedding_row_def block_def)
qed

lemma ref_lookup_pad_zero:
  assumes wf: "length (gen [nat n, nat d]) = nat n * nat d"
    and look: "ref_lookup gen [(''num_embeddings'', PInt n), (''embedding_dim'', PInt d),
                               (''padding_idx'', PInt 0)] [PTensor shp idx] =
                 Inr (PTensor shp' out)"
    and k: "k < length idx" and zero: "idx ! k = 0"
  shows "shp' = shp @ [nat d] \<and> block (nat d) k out = replicate (nat d) 0"
proof -
  let ?row = "embedding_row gen (nat n) (nat d) (Some (PInt 0))"
  from look obtain rows where rows: "those (map (row_index (nat n)) idx) = Some rows"
    and shp': "shp' = shp @ [nat d]" and out: "out = concat (map ?row rows)"
    by (auto simp add: ref_lookup_def split: option.splits)
  from rows have len: "length rows = length idx"
    by (rule those_map_length)
  from those_map_nth[OF rows k] have "row_index (nat n) (idx ! k) = Some (rows ! k)" .
  then have "rows ! k = 0"
    unfolding zero by (rule row_index_zero)
  then have zrow: "?row (rows ! k) = replicate (nat d) 0"
    by (simp add: embedding_row_def)
  have "\<forall>r \<in> set (map ?row rows). length r = nat d"
  proof
    fix r assume "r \<in> set (map ?row rows)"
    then obtain i where i: "i \<in> set rows" and r: "r = ?row i"
      by auto
    from those_map_all[OF rows i] have "i < nat n"
      by (auto dest: row_index_less)
    with wf show "length r = nat d"
      by (simp add: r embedding_row_length)
  qed
  then have "block (nat d) k (concat (map ?row rows)) = map ?row rows ! k"
    using k len by (intro block_concat) simp_all
  with k len zrow shp' out show ?thesis
    by simp
qed

lemma bind_args_keyword:
  assumes "bind_args names args kw = Inr b" and "map_of kw key = Some v"
  shows "map_of b key = Some v"
proof -
  from assms(1) have le: "length args \<le> length names"
    and keys: "\<forall>k \<in> fst ` set kw. k \<notin> set (take (length args) names)"
    and b: "b = zip names args @ kw"
    by (auto simp add: bind_args_def list_ex_iff split: if_splits)
  from assms(2) have "key \<in> fst ` set kw"
    by (auto dest: map_of_SomeD intro: rev_image_eqI)
  with keys have notin: "key \<notin> set (take (length args) names)"
    by blast
  have "zip names args = take (length args) (zip names args)"
    using le by simp
  also have "\<dots> = zip (take (length args) names) args"
    by (simp add: take_zip)
  finally have "map_of (zip names args) key = None"
    using notin le by (simp add: map_of_zip_is_None)
  then show ?thesis
    using assms(2) by (simp add: b map_add_def)
qed

lemma ref_embedding_pad_zero:
  assumes "ref_embedding args kw = Inr emb" and "map_of kw ''padding_idx'' = Some (PInt 0)"
  shows "\<exists>n d. emb = PObj Embedding [(''num_embeddings'', PInt n), (''embedding_dim'', PInt d),
                                      (''padding_idx'', PInt 0)]"
proof -
  from assms(1) obtain b where b: "bind_args [''num_embeddings'', ''embedding_dim'',
                                               ''padding_idx''] args kw = Inr b"
    by (auto simp add: ref_embedding_def split: sum.splits)
  from bind_args_keyword[OF b assms(2)] have "map_of b ''padding_idx'' = Some (PInt 0)" .
  with assms(1) b show ?thesis
    by (auto simp add: ref_embedding_def split: option.splits pyval.splits if_splits)
qed

lemma table_lookup_pad_zero:
  assumes wf: "\<forall>s. length (gen s) = prod_list s"
    and ok: "emb_ok c" and be: "builds_embedding c"
    and new: "torch_ref gen utils c = Inr emb"
    and look: "torch_ref gen utils (Forward emb [PTensor shp idx]) = Inr (PTensor shp' out)"
    and k: "k < length idx" and zero: "idx ! k = 0"
  shows "\<exists>d. attr emb ''embedding_dim'' = Inr (PInt d) \<and> shp' = shp @ [nat d]
             \<and> block (nat d) k out = replicate (nat d) 0"
proof -
  from be obtain args kw where c: "c = New Embedding args kw"
    by (cases c) (auto simp add: builds_embedding_def)
  from ok c have pad: "map_of kw ''padding_idx'' = Some (PInt 0)"
    by (simp add: emb_ok_def)
  from new c have "ref_embedding args kw = Inr emb"
    by (simp add: torch_ref_def ref_new_def)
  from ref_embedding_pad_zero[OF this pad] obtain n d where
    emb: "emb = PObj Embedding [(''num_embeddings'', PInt n), (''embedding_dim'', PInt d),
                                (''padding_idx'', PInt 0)]"
    by blast
  from look have l: "ref_lookup gen [(''num_embeddings'', PInt n), (''embedding_dim'', PInt d),
                               (''padding_idx'', PInt 0)] [PTensor shp idx] =
                 Inr (PTensor shp' out)"
    by (simp add: emb torch_ref_def ref_forward_def)
  from wf have "length (gen [nat n, nat d]) = nat n * nat d"
    by simp
  from ref_lookup_pad_zero[OF this l k zero] show ?thesis
    by (simp add: emb)
qed

lemma SharedRNN_init_object:
  assumes "outcome (SharedRNN_init lib nw sls nc wd cd hdim dr nl ru) = Inr obj"
  shows "\<exists>wemb cemb birnn wordRNN.
           lib (New Embedding [PInt nw, PInt wd] [(''padding_idx'', PInt 0)]) = Inr wemb
           \<and> lib (New Embedding [PInt nc, PInt cd] [(''padding_idx'', PInt 0)]) = Inr cemb
           \<and> obj = PObj SharedRNN
                     [(''PAD_ind'', PInt 0), (''wemb'', wemb), (''cemb'', cemb),
                      (''charRNN'', PObj CharRNN [(''cemb'', cemb), (''birnn'', birnn)]),
                      (''wordRNN'', wordRNN)]"
  using assms
  by (auto simp add: SharedRNN_init_def CharRNN_init_def outcome_def fst_and_then_Inr lift_def
        call_def ret_def setattr_def Let_def split: if_splits)

lemma CharRNN_forward_first_call:
  assumes "attr ch ''cemb'' = Inr tbl" and "py_len char_lengths = Inr B"
  shows "take 1 (calls (CharRNN_forward lib ch padded_chars char_lengths)) =
           [Forward tbl [padded_chars]]"
  using assms by (simp add: CharRNN_forward_def run_proj)

text \<open>
  Claim C10. Every call that constructs an embedding table, in the runs of the constructors
  of SharedRNN (and so of MTLArchitecture) and of SharedBiRNN, passes \<open>padding_idx=0\<close>,
  the value read back from the attribute \<open>PAD_ind\<close> / \<open>Pad_ind\<close> that the constructor
  has just set to 0. The word table is always the first call of the run and the character
  table the second once the first is answered, so the property is about calls that are
  made. In the reference environment, whatever the initial weights \<open>gen\<close> (as many numbers
  as the shape holds), each table that such a call constructs answers every lookup with the
  zero vector at every position whose index is 0: position \<open>k\<close> of the index tensor is
  row \<open>k\<close> of the result, \<open>embedding_dim\<close> zeros. The same holds of the tables stored
  in the attributes \<open>wemb\<close> and \<open>cemb\<close> of the SharedRNN object, and the lookup that
  \<open>CharRNN.forward\<close> performs, its first call, is a lookup in that \<open>cemb\<close>.
\<close>

theorem embedding_tables_pad_zero:
  "every_call emb_ok (SharedRNN_init lib nw sls nc wd cd hdim dr nl ru)
   \<and> every_call emb_ok (SharedBiRNN_init lib nw nc nl ru)
   \<and> every_call emb_ok (MTLArchitecture_init lib nw sls nc wd cd hdim dr nl nt nr act ru)
   \<and> take 1 (calls (SharedRNN_init lib nw sls nc wd cd hdim dr nl ru)) =
       [New Embedding [PInt nw, PInt wd] [(''padding_idx'', PInt 0)]]
   \<and> (\<forall>wemb. lib (New Embedding [PInt nw, PInt wd] [(''padding_idx'', PInt 0)]) = Inr wemb \<longrightarrow>
        take 2 (calls (SharedRNN_init lib nw sls nc wd cd hdim dr nl ru)) =
          [New Embedding [PInt nw, PInt wd] [(''padding_idx'', PInt 0)],
           New Embedding [PInt nc, PInt cd] [(''padding_idx'', PInt 0)]])
   \<and> take 1 (calls (SharedBiRNN_init lib nw nc nl ru)) =
       [New Embedding [PInt nw, PInt 1388] [(''padding_idx'', PInt 0)]]
   \<and> (\<forall>wemb. lib (New Embedding [PInt nw, PInt 1388] [(''padding_idx'', PInt 0)]) = Inr wemb \<longrightarrow>
        take 2 (calls (SharedBiRNN_init lib nw nc nl ru)) =
          [New Embedding [PInt nw, PInt 1388] [(''padding_idx'', PInt 0)],
           New Embedding [PInt nc, PInt 32] [(''padding_idx'', PInt 0)]])
   \<and> (\<forall>obj. outcome (SharedRNN_init lib nw sls nc wd cd hdim dr nl ru) = Inr obj \<longrightarrow>
        attr obj ''PAD_ind'' = Inr (PInt 0))
   \<and> ((\<forall>s. length (gen s) = prod_list s) \<longrightarrow>
        (\<forall>c emb shp idx shp' out k.
           (c \<in> set (calls (SharedRNN_init (torch_ref gen utils) nw sls nc wd cd hdim dropout
                               nl ru))
            \<or> c \<in> set (calls (SharedBiRNN_init (torch_ref gen utils) nw nc nl ru))
            \<or> c \<in> set (calls (MTLArchitecture_init (torch_ref gen utils) nw sls nc wd cd hdim
                                 dropout nl nt nr act ru)))
           \<and> builds_embedding c \<and> torch_ref gen utils c = Inr emb
           \<and> torch_ref gen utils (Forward emb [PTensor shp idx]) = Inr (PTensor shp' out)
           \<and> k < length idx \<and> idx ! k = 0
           \<longrightarrow> (\<exists>d. attr emb ''embedding_dim'' = Inr (PInt d) \<and> shp' = shp @ [nat d]
                    \<and> block (nat d) k out = replicate (nat d) 0)))
   \<and> ((\<forall>s. length (gen s) = prod_list s) \<longrightarrow>
        (\<forall>obj tbl shp idx shp' out k.
           outcome (SharedRNN_init (torch_ref gen utils) nw sls nc wd cd hdim dropout nl ru) =
             Inr obj
           \<and> (attr obj ''wemb'' = Inr tbl \<or> attr obj ''cemb'' = Inr tbl)
           \<and> torch_ref gen utils (Forward tbl [PTensor shp idx]) = Inr (PTensor shp' out)
           \<and> k < length idx \<and> idx ! k = 0
           \<longrightarrow> (\<exists>d. attr tbl ''embedding_dim'' = Inr (PInt d) \<and> shp' = shp @ [nat d]
                    \<and> block (nat d) k out = replicate (nat d) 0)))
   \<and> (\<forall>obj ch tbl B.
         outcome (SharedRNN_init lib nw sls nc wd cd hdim dr nl ru) = Inr obj
         \<and> attr obj ''charRNN'' = Inr ch \<and> attr obj ''cemb'' = Inr tbl
         \<and> py_len char_lengths = Inr B
         \<longrightarrow> attr ch ''cemb'' = Inr tbl
             \<and> take 1 (calls (CharRNN_forward lib ch padded_chars char_lengths)) =
                 [Forward tbl [padded_chars]])"
proof -
  have A: "((\<forall>s. length (gen s) = prod_list s) \<longrightarrow>
        (\<forall>c emb shp idx shp' out k.
           (c \<in> set (calls (SharedRNN_init (torch_ref gen utils) nw sls nc wd cd hdim dropout
                               nl ru))
            \<or> c \<in> set (calls (SharedBiRNN_init (torch_ref gen utils) nw nc nl ru))
            \<or> c \<in> set (calls (MTLArchitecture_init (torch_ref gen utils) nw sls nc wd cd hdim
                                 dropout nl nt nr act ru)))
           \<and> builds_embedding c \<and> torch_ref gen utils c = Inr emb
           \<and> torch_ref gen utils (Forward emb [PTensor shp idx]) = Inr (PTensor shp' out)
           \<and> k < length idx \<and> idx ! k = 0
           \<longrightarrow> (\<exists>d. attr emb ''embedding_dim'' = Inr (PInt d) \<and> shp' = shp @ [nat d]
                    \<and> block (nat d) k out = replicate (nat d) 0)))"
  proof (intro allI impI, elim conjE)
    fix c emb shp idx shp' out k
    assume wf: "\<forall>s. length (gen s) = prod_list s"
      and mem: "c \<in> set (calls (SharedRNN_init (torch_ref gen utils) nw sls nc wd cd hdim dropout
                               nl ru))
            \<or> c \<in> set (calls (SharedBiRNN_init (torch_ref gen utils) nw nc nl ru))
            \<or> c \<in> set (calls (MTLArchitecture_init (torch_ref gen utils) nw sls nc wd cd hdim
                                 dropout nl nt nr act ru))"
      and be: "builds_embedding c" and new: "torch_ref gen utils c = Inr emb"
      and look: "torch_ref gen utils (Forward emb [PTensor shp idx]) = Inr (PTensor shp' out)"
      and k: "k < length idx" and zero: "idx ! k = 0"
    from mem have ok: "emb_ok c"
      using SharedRNN_init_emb_ok[of "torch_ref gen utils" nw sls nc wd cd hdim dropout nl ru]
        SharedBiRNN_init_emb_ok[of "torch_ref gen utils" nw nc nl ru]
        MTLArchitecture_init_emb_ok[of "torch_ref gen utils" nw sls nc wd cd hdim dropout nl
          nt nr act ru]
      by (auto simp add: every_call_def calls_def list_all_iff)
    show "\<exists>d. attr emb ''embedding_dim'' = Inr (PInt d) \<and> shp' = shp @ [nat d]
                 \<and> block (nat d) k out = replicate (nat d) 0"
      by (rule table_lookup_pad_zero[OF wf ok be new look k zero])
  qed
  have B: "((\<forall>s. length (gen s) = prod_list s) \<longrightarrow>
        (\<forall>obj tbl shp idx shp' out k.
           outcome (SharedRNN_init (torch_ref gen utils) nw sls nc wd cd hdim dropout nl ru) =
             Inr obj
           \<and> (attr obj ''wemb'' = Inr tbl \<or> attr obj ''cemb'' = Inr tbl)
           \<and> torch_ref gen utils (Forward tbl [PTensor shp idx]) = Inr (PTensor shp' out)
           \<and> k < length idx \<and> idx ! k = 0
           \<longrightarrow> (\<exists>d. attr tbl ''embedding_dim'' = Inr (PInt d) \<and> shp' = shp @ [nat d]
                    \<and> block (nat d) k out = replicate (nat d) 0)))"
  proof (intro allI impI, elim conjE)
    fix obj tbl shp idx shp' out k
    assume wf: "\<forall>s. length (gen s) = prod_list s"
      and obj: "outcome (SharedRNN_init (torch_ref gen utils) nw sls nc wd cd hdim dropout nl ru)
                  = Inr obj"
      and tbl: "attr obj ''wemb'' = Inr tbl \<or> attr obj ''cemb'' = Inr tbl"
      and look: "torch_ref gen utils (Forward tbl [PTensor shp idx]) = Inr (PTensor shp' out)"
      and k: "k < length idx" and zero: "idx ! k = 0"
    from SharedRNN_init_object[OF obj] tbl obtain c where
      new: "torch_ref gen utils c = Inr tbl" and ok: "emb_ok c" and be: "builds_embedding c"
      by (auto simp add: emb_ok_def builds_embedding_def)
    show "\<exists>d. attr tbl ''embedding_dim'' = Inr (PInt d) \<and> shp' = shp @ [nat d]
                 \<and> block (nat d) k out = replicate (nat d) 0"
      by (rule table_lookup_pad_zero[OF wf ok be new look k zero])
  qed
  have C: "(\<forall>obj ch tbl B.
         outcome (SharedRNN_init lib nw sls nc wd cd hdim dr nl ru) = Inr obj
         \<and> attr obj ''charRNN'' = Inr ch \<and> attr obj ''cemb'' = Inr tbl
         \<and> py_len char_lengths = Inr B
         \<longrightarrow> attr ch ''cemb'' = Inr tbl
             \<and> take 1 (calls (CharRNN_forward lib ch padded_chars char_lengths)) =
                 [Forward tbl [padded_chars]])"
  proof (intro allI impI, elim conjE)
    fix obj ch tbl B
    assume obj: "outcome (SharedRNN_init lib nw sls nc wd cd hdim dr nl ru) = Inr obj"
      and ch: "attr obj ''charRNN'' = Inr ch" and tbl: "attr obj ''cemb'' = Inr tbl"
      and B: "py_len char_lengths = Inr B"
    from SharedRNN_init_object[OF obj] ch tbl have c: "attr ch ''cemb'' = Inr tbl"
      by auto
    from CharRNN_forward_first_call[OF c B] c
    show "attr ch ''cemb'' = Inr tbl
             \<and> take 1 (calls (CharRNN_forward lib ch padded_chars char_lengths)) =
                 [Forward tbl [padded_chars]]"
      by simp
  qed
  show ?thesis
    using SharedRNN_init_tables[of lib nw sls nc wd cd hdim dr nl ru]
      SharedBiRNN_init_tables[of lib nw nc nl ru]
      SharedRNN_init_PAD_ind[of lib nw sls nc wd cd hdim dr nl ru]
    by (intro conjI SharedRNN_init_emb_ok SharedBiRNN_init_emb_ok MTLArchitecture_init_emb_ok
          A B C)
       blast+
qed

theorem embedding_tables_pad_zero_witness:
  "every_call emb_ok
     (MTLArchitecture_init (torch_ref iota demo_utils) 100 64 50 30 16 32 PNone 1 9 5
        ''relu'' ''gru'')
   \<and> filter builds_embedding
       (calls (MTLArchitecture_init (torch_ref iota demo_utils) 100 64 50 30 16 32 PNone 1 9 5
                 ''relu'' ''gru'')) =
      [New Embedding [PInt 100, PInt 30] [(''padding_idx'', PInt 0)],
       New Embedding [PInt 50, PInt 16] [(''padding_idx'', PInt 0)]]
   \<and> every_call emb_ok (SharedBiRNN_init (torch_ref iota demo_utils) 100 50 1 ''gru'')
   \<and> calls (SharedBiRNN_init (torch_ref iota demo_utils) 100 50 1 ''gru'') =
      [New Embedding [PInt 100, PInt 1388] [(''padding_idx'', PInt 0)],
       New Embedding [PInt 50, PInt 32] [(''padding_idx'', PInt 0)]]
   \<and> attr (PObj SharedRNN
             [(''PAD_ind'', PInt 0),
              (''wemb'', PObj Embedding [(''num_embeddings'', PInt 100),
                 (''embedding_dim'', PInt 30), (''padding_idx'', PInt 0)])]) ''PAD_ind'' =
       Inr (PInt (0 :: int) :: nat pyval)
   \<and> (\<forall>s. length (iota s) = prod_list s)
   \<and> New Embedding [PInt 5, PInt 3] [(''padding_idx'', PInt 0)]
       \<in> set (calls (SharedRNN_init (torch_ref iota demo_utils) 100 64 5 30 3 32 PNone 1 ''gru''))
   \<and> torch_ref iota demo_utils (New Embedding [PInt 5, PInt 3] [(''padding_idx'', PInt 0)]) =
       Inr (PObj Embedding [(''num_embeddings'', PInt 5), (''embedding_dim'', PInt 3),
            (''padding_idx'', PInt 0)])
   \<and> torch_ref iota demo_utils (Forward (PObj Embedding [(''num_embeddings'', PInt 5), (''embedding_dim'', PInt 3),
            (''padding_idx'', PInt 0)])
         [(PTensor [2, 3] [1, 2, 3, 4, 1, 0])]) =
       Inr (PTensor [2, 3, 3] [3, 4, 5, 6, 7, 8, 9, 10, 11, 12, 13, 14, 3, 4, 5, 0, 0, 0])
   \<and> block 3 5 [3, 4, 5, 6, 7, 8, 9, 10, 11, 12, 13, 14, 3, 4, 5, 0, 0, 0] = replicate 3 (0 :: nat)
   \<and> outcome (SharedRNN_init (torch_ref iota demo_utils) 100 64 5 30 3 32 PNone 1 ''gru'') =
       Inr (PObj SharedRNN
        [(''PAD_ind'', PInt 0),
         (''wemb'', (PObj Embedding [(''num_embeddings'', PInt 100), (''embedding_dim'', PInt 30),
            (''padding_idx'', PInt 0)])),
         (''cemb'', (PObj Embedding [(''num_embeddings'', PInt 5), (''embedding_dim'', PInt 3),
            (''padding_idx'', PInt 0)])),
         (''charRNN'', (PObj CharRNN
          [(''cemb'', (PObj Embedding [(''num_embeddings'', PInt 5), (''embedding_dim'', PInt 3),
            (''padding_idx'', PInt 0)])),
           (''birnn'', PObj GRU [(''input_size'', PInt 3), (''hidden_size'', PInt 3),
              (''num_layers'', PInt 1), (''bidirectional'', PBool True)])])),
         (''wordRNN'', PObj GRU [(''input_size'', PInt 36), (''hidden_size'', PInt 32),
            (''num_layers'', PInt 1), (''bidirectional'', PBool True)])])
   \<and> take 1 (calls (CharRNN_forward (torch_ref iota demo_utils)
         (PObj CharRNN
          [(''cemb'', (PObj Embedding [(''num_embeddings'', PInt 5), (''embedding_dim'', PInt 3),
            (''padding_idx'', PInt 0)])),
           (''birnn'', PObj GRU [(''input_size'', PInt 3), (''hidden_size'', PInt 3),
              (''num_layers'', PInt 1), (''bidirectional'', PBool True)])])
         (PTensor [2, 3] [1, 2, 3, 4, 1, 0]) (PList [PInt 3, PInt 2]))) =
       [Forward (PObj Embedding [(''num_embeddings'', PInt 5), (''embedding_dim'', PInt 3),
            (''padding_idx'', PInt 0)]) [(PTensor [2, 3] [1, 2, 3, 4, 1, 0])]]"
proof -
  note t = embedding_tables_pad_zero[where lib = "torch_ref iota demo_utils" and nw = 100
      and sls = 64 and nc = 50 and wd = 30 and cd = 16 and hdim = 32 and dr = PNone
      and nl = 1 and nt = 9 and nr = 5 and act = "''relu''" and ru = "''gru''"]
  have a: "every_call emb_ok
     (MTLArchitecture_init (torch_ref iota demo_utils) 100 64 50 30 16 32 PNone 1 9 5
        ''relu'' ''gru'')"
    using t by blast
  have b: "every_call emb_ok (SharedBiRNN_init (torch_ref iota demo_utils) 100 50 1 ''gru'')"
    using t by blast
  have c: "filter builds_embedding
       (calls (MTLArchitecture_init (torch_ref iota demo_utils) 100 64 50 30 16 32 PNone 1 9 5
                 ''relu'' ''gru'')) =
      [New Embedding [PInt 100, PInt 30] [(''padding_idx'', PInt 0)],
       New Embedding [PInt 50, PInt 16] [(''padding_idx'', PInt 0)]]"
    by (simp add: init_defs run_simps ref_defs builds_embedding_def)
  have d: "calls (SharedBiRNN_init (torch_ref iota demo_utils) 100 50 1 ''gru'') =
      [New Embedding [PInt 100, PInt 1388] [(''padding_idx'', PInt 0)],
       New Embedding [PInt 50, PInt 32] [(''padding_idx'', PInt 0)]]"
    by (simp add: SharedBiRNN_init_def SharedBiRNN_init_in_def run_simps ref_defs
          ELMODim_def GloveDim_def CharDim_def)
  note t2 = embedding_tables_pad_zero[where lib = "torch_ref iota demo_utils" and gen = iota
      and utils = demo_utils and nw = 100 and sls = 64 and nc = 5 and wd = 30 and cd = 3
      and hdim = 32 and dr = PNone and dropout = PNone and nl = 1 and nt = 9 and nr = 5
      and act = "''relu''" and ru = "''gru''" and padded_chars = "PTensor [2, 3] [1, 2, 3, 4, 1, 0]"
      and char_lengths = "PList [PInt 3, PInt 2]"]
  have wf: "(\<forall>s. length (iota s) = prod_list s)"
    by (simp add: iota_def)
  have run: "SharedRNN_init (torch_ref iota demo_utils) 100 64 5 30 3 32 PNone 1 ''gru'' =
       (Inr (PObj SharedRNN
        [(''PAD_ind'', PInt 0),
         (''wemb'', (PObj Embedding [(''num_embeddings'', PInt 100), (''embedding_dim'', PInt 30),
            (''padding_idx'', PInt 0)])),
         (''cemb'', (PObj Embedding [(''num_embeddings'', PInt 5), (''embedding_dim'', PInt 3),
            (''padding_idx'', PInt 0)])),
         (''charRNN'', (PObj CharRNN
          [(''cemb'', (PObj Embedding [(''num_embeddings'', PInt 5), (''embedding_dim'', PInt 3),
            (''padding_idx'', PInt 0)])),
           (''birnn'', PObj GRU [(''input_size'', PInt 3), (''hidden_size'', PInt 3),
              (''num_layers'', PInt 1), (''bidirectional'', PBool True)])])),
         (''wordRNN'', PObj GRU [(''input_size'', PInt 36), (''hidden_size'', PInt 32),
            (''num_layers'', PInt 1), (''bidirectional'', PBool True)])]),
        [New Embedding [PInt 100, PInt 30] [(''padding_idx'', PInt 0)],
         New Embedding [PInt 5, PInt 3] [(''padding_idx'', PInt 0)],
         New GRU [PInt 3, PInt 3, PInt 1] [(''bidirectional'', PBool True)],
         New GRU [PInt 36, PInt 32, PInt 1] [(''bidirectional'', PBool True)]])"
    by (simp add: init_defs run_simps ref_defs)
  have mem: "New Embedding [PInt 5, PInt 3] [(''padding_idx'', PInt 0)]
       \<in> set (calls (SharedRNN_init (torch_ref iota demo_utils) 100 64 5 30 3 32 PNone 1 ''gru''))"
    by (simp add: run calls_def)
  have new: "torch_ref iota demo_utils (New Embedding [PInt 5, PInt 3] [(''padding_idx'', PInt 0)]) =
       Inr (PObj Embedding [(''num_embeddings'', PInt 5), (''embedding_dim'', PInt 3),
            (''padding_idx'', PInt 0)])"
    by (simp add: ref_defs)
  have look: "torch_ref iota demo_utils (Forward (PObj Embedding [(''num_embeddings'', PInt 5), (''embedding_dim'', PInt 3),
            (''padding_idx'', PInt 0)])
         [(PTensor [2, 3] [1, 2, 3, 4, 1, 0])]) =
       Inr (PTensor [2, 3, 3] [3, 4, 5, 6, 7, 8, 9, 10, 11, 12, 13, 14, 3, 4, 5, 0, 0, 0])"
    by (simp add: torch_ref_def ref_forward_def ref_lookup_5_3)
  have obj: "outcome (SharedRNN_init (torch_ref iota demo_utils) 100 64 5 30 3 32 PNone 1 ''gru'') =
       Inr (PObj SharedRNN
        [(''PAD_ind'', PInt 0),
         (''wemb'', (PObj Embedding [(''num_embeddings'', PInt 100), (''embedding_dim'', PInt 30),
            (''padding_idx'', PInt 0)])),
         (''cemb'', (PObj Embedding [(''num_embeddings'', PInt 5), (''embedding_dim'', PInt 3),
            (''padding_idx'', PInt 0)])),
         (''charRNN'', (PObj CharRNN
          [(''cemb'', (PObj Embedding [(''num_embeddings'', PInt 5), (''embedding_dim'', PInt 3),
            (''padding_idx'', PInt 0)])),
           (''birnn'', PObj GRU [(''input_size'', PInt 3), (''hidden_size'', PInt 3),
              (''num_layers'', PInt 1), (''bidirectional'', PBool True)])])),
         (''wordRNN'', PObj GRU [(''input_size'', PInt 36), (''hidden_size'', PInt 32),
            (''num_layers'', PInt 1), (''bidirectional'', PBool True)])])"
    by (simp add: run outcome_def)
  note A = t2[THEN conjunct2, THEN conjunct2, THEN conjunct2, THEN conjunct2, THEN conjunct2,
      THEN conjunct2, THEN conjunct2, THEN conjunct2, THEN conjunct1, rule_format, OF wf[rule_format]]
  have "\<exists>d. attr (PObj Embedding [(''num_embeddings'', PInt 5), (''embedding_dim'', PInt 3),
            (''padding_idx'', PInt 0)] :: nat pyval) ''embedding_dim'' = Inr (PInt d)
          \<and> [2, 3, 3] = [2, 3] @ [nat d]
          \<and> block (nat d) 5 [3, 4, 5, 6, 7, 8, 9, 10, 11, 12, 13, 14, 3, 4, 5, 0, 0, 0] = replicate (nat d) (0 :: nat)"
    by (rule A[where c = "New Embedding [PInt 5, PInt 3] [(''padding_idx'', PInt 0)]"
          and idx = "[1, 2, 3, 4, 1, 0]"],
        insert mem new look, simp add: builds_embedding_def)
  then have z: "block 3 5 [3, 4, 5, 6, 7, 8, 9, 10, 11, 12, 13, 14, 3, 4, 5, 0, 0, 0] = replicate 3 (0 :: nat)"
    by auto
  note C = t2[THEN conjunct2, THEN conjunct2, THEN conjunct2, THEN conjunct2, THEN conjunct2,
      THEN conjunct2, THEN conjunct2, THEN conjunct2, THEN conjunct2, THEN conjunct2,
      rule_format]
  have "attr (PObj CharRNN
          [(''cemb'', (PObj Embedding [(''num_embeddings'', PInt 5), (''embedding_dim'', PInt 3),
            (''padding_idx'', PInt 0)])),
           (''birnn'', PObj GRU [(''input_size'', PInt 3), (''hidden_size'', PInt 3),
              (''num_layers'', PInt 1), (''bidirectional'', PBool True)])]) ''cemb'' =
       Inr (PObj Embedding [(''num_embeddings'', PInt 5), (''embedding_dim'', PInt 3),
            (''padding_idx'', PInt 0)])
     \<and> take 1 (calls (CharRNN_forward (torch_ref iota demo_utils)
         (PObj CharRNN
          [(''cemb'', (PObj Embedding [(''num_embeddings'', PInt 5), (''embedding_dim'', PInt 3),
            (''padding_idx'', PInt 0)])),
           (''birnn'', PObj GRU [(''input_size'', PInt 3), (''hidden_size'', PInt 3),
              (''num_layers'', PInt 1), (''bidirectional'', PBool True)])])
         (PTensor [2, 3] [1, 2, 3, 4, 1, 0]) (PList [PInt 3, PInt 2]))) =
       [Forward (PObj Embedding [(''num_embeddings'', PInt 5), (''embedding_dim'', PInt 3),
            (''padding_idx'', PInt 0)]) [(PTensor [2, 3] [1, 2, 3, 4, 1, 0])]]"
    using obj C[where B = 2
        and tbl = "PObj Embedding [(''num_embeddings'', PInt 5), (''embedding_dim'', PInt 3),
            (''padding_idx'', PInt 0)]"
        and ch = "PObj CharRNN
          [(''cemb'', PObj Embedding [(''num_embeddings'', PInt 5), (''embedding_dim'', PInt 3),
            (''padding_idx'', PInt 0)]),
           (''birnn'', PObj GRU [(''input_size'', PInt 3), (''hidden_size'', PInt 3),
              (''num_layers'', PInt 1), (''bidirectional'', PBool True)])]"
        and obj = "(PObj SharedRNN
        [(''PAD_ind'', PInt 0),
         (''wemb'', (PObj Embedding [(''num_embeddings'', PInt 100), (''embedding_dim'', PInt 30),
            (''padding_idx'', PInt 0)])),
         (''cemb'', (PObj Embedding [(''num_embeddings'', PInt 5), (''embedding_dim'', PInt 3),
            (''padding_idx'', PInt 0)])),
         (''charRNN'', (PObj CharRNN
          [(''cemb'', (PObj Embedding [(''num_embeddings'', PInt 5), (''embedding_dim'', PInt 3),
            (''padding_idx'', PInt 0)])),
           (''birnn'', PObj GRU [(''input_size'', PInt 3), (''hidden_size'', PInt 3),
              (''num_layers'', PInt 1), (''bidirectional'', PBool True)])])),
         (''wordRNN'', PObj GRU [(''input_size'', PInt 36), (''hidden_size'', PInt 32),
            (''num_layers'', PInt 1), (''bidirectional'', PBool True)])])"]
    by (simp add: py_len_def)
  then have first: "take 1 (calls (CharRNN_forward (torch_ref iota demo_utils)
         (PObj CharRNN
          [(''cemb'', (PObj Embedding [(''num_embeddings'', PInt 5), (''embedding_dim'', PInt 3),
            (''padding_idx'', PInt 0)])),
           (''birnn'', PObj GRU [(''input_size'', PInt 3), (''hidden_size'', PInt 3),
              (''num_layers'', PInt 1), (''bidirectional'', PBool True)])])
         (PTensor [2, 3] [1, 2, 3, 4, 1, 0]) (PList [PInt 3, PInt 2]))) =
       [Forward (PObj Embedding [(''num_embeddings'', PInt 5), (''embedding_dim'', PInt 3),
            (''padding_idx'', PInt 0)]) [(PTensor [2, 3] [1, 2, 3, 4, 1, 0])]]"
    by (rule conjunct2)
  show ?thesis
    using a b c d wf mem new look z obj first by simp
qed

subsection \<open>The constructors that apply an activation to None\<close>




subsection \<open>NERSpecificRNN with an unsupported activation\<close>

lemma NERSpecificRNN_init_plain:
  assumes "activation_type \<notin> {''relu'', ''tanh'', ''gelu''}"
  shows "NERSpecificRNN_init lib sls nt hdim dr nl activation_type ru =
     and_then (call lib (New (rnn_cls ru) [PInt sls, PInt hdim, PInt nl]
                           [(''bidirectional'', PBool True)])) (\<lambda>birnn.
     and_then (call lib (New Linear [PInt hdim, PInt nt] [])) (\<lambda>l.
     ret (PObj NERSpecificRNN [(''birnn'', birnn), (''FFNNe2'', l)])))"
  using assms
  by (simp add: NERSpecificRNN_init_def rnn_cls_def and_then_ret setattr_def Let_def)

text \<open>
  Claim C3. For an \<open>activation_type\<close> other than \<open>"relu"\<close>, \<open>"tanh"\<close> and \<open>"gelu"\<close>,
  \<open>NERSpecificRNN.__init__\<close> takes no branch of the activation chain: whenever the
  recurrent layer and the linear layer are constructed, it returns the object with exactly
  the attributes \<open>birnn\<close> and \<open>FFNNe2\<close>, on which reading \<open>FFNNe1\<close> raises
  AttributeError; and an exception of the constructor can only be one raised by one of
  these two layer constructions, never one about the activation name.
\<close>

theorem NERSpecificRNN_unsupported_activation:
  assumes "activation_type \<notin> {''relu'', ''tanh'', ''gelu''}"
  shows "(\<forall>b l. lib (New (rnn_cls ru) [PInt sls, PInt hdim, PInt nl] [(''bidirectional'', PBool True)]) = Inr b
             \<and> lib (New Linear [PInt hdim, PInt nt] []) = Inr l \<longrightarrow>
           NERSpecificRNN_init lib sls nt hdim dr nl activation_type ru =
             (Inr (PObj NERSpecificRNN [(''birnn'', b), (''FFNNe2'', l)]),
              [New (rnn_cls ru) [PInt sls, PInt hdim, PInt nl] [(''bidirectional'', PBool True)],
               New Linear [PInt hdim, PInt nt] []])
           \<and> attr (PObj NERSpecificRNN [(''birnn'', b), (''FFNNe2'', l)]) ''FFNNe1'' = Inl AttributeError)
       \<and> (\<forall>obj. outcome (NERSpecificRNN_init lib sls nt hdim dr nl activation_type ru) = Inr obj \<longrightarrow>
             attr obj ''FFNNe1'' = Inl AttributeError)
       \<and> (\<forall>x. outcome (NERSpecificRNN_init lib sls nt hdim dr nl activation_type ru) = Inl x \<longrightarrow>
             lib (New (rnn_cls ru) [PInt sls, PInt hdim, PInt nl] [(''bidirectional'', PBool True)]) = Inl x
             \<or> lib (New Linear [PInt hdim, PInt nt] []) = Inl x)"
  unfolding NERSpecificRNN_init_plain[OF assms]
  by (auto simp add: run_proj and_then_Inl and_then_Inr split: sum.splits)

theorem NERSpecificRNN_unsupported_activation_witness:
  "''swish'' \<notin> {''relu'', ''tanh'', ''gelu''}
   \<and> NERSpecificRNN_init (torch_ref iota demo_utils) 64 9 32 PNone 1 ''swish'' ''gru'' =
       (Inr (PObj NERSpecificRNN
              [(''birnn'', PObj GRU [(''input_size'', PInt 64), (''hidden_size'', PInt 32),
                                    (''num_layers'', PInt 1), (''bidirectional'', PBool True)]),
               (''FFNNe2'', PObj Linear [(''in_features'', PInt 32),
                                        (''out_features'', PInt 9)])]),
        [New GRU [PInt 64, PInt 32, PInt 1] [(''bidirectional'', PBool True)],
         New Linear [PInt 32, PInt 9] []])
   \<and> attr (PObj NERSpecificRNN
              [(''birnn'', PObj GRU [(''input_size'', PInt 64), (''hidden_size'', PInt 32),
                                    (''num_layers'', PInt 1), (''bidirectional'', PBool True)]),
               (''FFNNe2'', PObj Linear [(''in_features'', PInt 32),
                                        (''out_features'', PInt 9)])]) ''FFNNe1'' =
       (Inl AttributeError :: error + nat pyval)"
proof -
  have h: "''swish'' \<notin> {''relu'', ''tanh'', ''gelu''}"
    by simp
  show ?thesis
    using NERSpecificRNN_unsupported_activation[OF h,
        where lib = "torch_ref iota demo_utils" and ru = "''gru''" and sls = 64 and hdim = 32
          and nl = 1 and nt = 9 and dr = PNone]
    by (simp add: ref_defs rnn_cls_def)
qed

subsection \<open>SharedBiRNN.forward\<close>

lemma SharedBiRNN_forward_calls: "every_call loader_or_cat (SharedBiRNN_forward lib self X)"
  unfolding SharedBiRNN_forward_def
  by (intro every_call_intros every_call_call) (simp_all add: loader_or_cat_def)

text \<open>
  Claim C9. \<open>SharedBiRNN.forward\<close> never returns anything but \<open>None\<close>, for every
  \<open>self\<close>, every batch \<open>X\<close> and every environment: its only calls are the two
  embedding loaders and \<open>torch.cat\<close>, so no layer of the object (character RNN, word
  embedding table, word-level RNN) is applied; when these three calls answer, the method
  returns \<open>None\<close>, and otherwise it passes on the exception of the call that raised.
\<close>

theorem SharedBiRNN_forward_returns_None:
  "(\<forall>v. outcome (SharedBiRNN_forward lib self X) = Inr v \<longrightarrow> v = PNone)
   \<and> every_call loader_or_cat (SharedBiRNN_forward lib self X)
   \<and> (\<forall>e g w. lib (Utils load_elmo_weights [X]) = Inr e
         \<and> lib (Utils load_glove_embeddings [X]) = Inr g
         \<and> lib (Torch torch_cat [PList [e, g]] [(''dim'', PInt 2)]) = Inr w \<longrightarrow>
         SharedBiRNN_forward lib self X =
           (Inr PNone,
            [Utils load_elmo_weights [X], Utils load_glove_embeddings [X],
             Torch torch_cat [PList [e, g]] [(''dim'', PInt 2)]]))
   \<and> (\<forall>x. outcome (SharedBiRNN_forward lib self X) = Inl x \<longrightarrow>
         (\<exists>c \<in> set (calls (SharedBiRNN_forward lib self X)). lib c = Inl x))"
proof (intro conjI SharedBiRNN_forward_calls)
  show "\<forall>v. outcome (SharedBiRNN_forward lib self X) = Inr v \<longrightarrow> v = PNone"
    by (auto simp add: SharedBiRNN_forward_def outcome_def fst_and_then_Inr ret_def)
  show "\<forall>e g w. lib (Utils load_elmo_weights [X]) = Inr e
         \<and> lib (Utils load_glove_embeddings [X]) = Inr g
         \<and> lib (Torch torch_cat [PList [e, g]] [(''dim'', PInt 2)]) = Inr w \<longrightarrow>
         SharedBiRNN_forward lib self X =
           (Inr PNone,
            [Utils load_elmo_weights [X], Utils load_glove_embeddings [X],
             Torch torch_cat [PList [e, g]] [(''dim'', PInt 2)]])"
    by (simp add: SharedBiRNN_forward_def run_simps)
  show "\<forall>x. outcome (SharedBiRNN_forward lib self X) = Inl x \<longrightarrow>
         (\<exists>c \<in> set (calls (SharedBiRNN_forward lib self X)). lib c = Inl x)"
    by (auto simp add: SharedBiRNN_forward_def run_proj split: sum.splits)
qed

lemma demo_loaders:
  "torch_ref iota demo_utils (Utils load_elmo_weights [PTensor [1, 2] [3, 4]]) =
     Inr (PTensor [1, 2, 1024] (iota [1, 2, 1024]))"
  "torch_ref iota demo_utils (Utils load_glove_embeddings [PTensor [1, 2] [3, 4]]) =
     Inr (PTensor [1, 2, 300] (iota [1, 2, 300]))"
  "torch_ref iota demo_utils
     (Torch torch_cat [PList [PTensor [1, 2, 1024] (iota [1, 2, 1024]),
                              PTensor [1, 2, 300] (iota [1, 2, 300])]] [(''dim'', PInt 2)]) =
     Inr (PTensor [1, 2, 1324] (iota [1, 2, 1324]))"
  by (simp_all add: torch_ref_def demo_utils_def ref_cat_def bind_args_def Let_def)

theorem SharedBiRNN_forward_returns_None_witness:
  "SharedBiRNN_forward (torch_ref iota demo_utils) (PObj SharedBiRNN []) (PTensor [1, 2] [3, 4]) =
     (Inr PNone,
      [Utils load_elmo_weights [PTensor [1, 2] [3, 4]],
       Utils load_glove_embeddings [PTensor [1, 2] [3, 4]],
       Torch torch_cat [PList [PTensor [1, 2, 1024] (iota [1, 2, 1024]),
                               PTensor [1, 2, 300] (iota [1, 2, 300])]] [(''dim'', PInt 2)]])
   \<and> every_call loader_or_cat
        (SharedBiRNN_forward (torch_ref iota demo_utils) (PObj SharedBiRNN [])
           (PTensor [1, 2] [3, 4]))
   \<and> outcome (SharedBiRNN_forward lenient_env (PNone :: nat pyval) PNone) = Inl TypeError"
proof -
  note t = SharedBiRNN_forward_returns_None[of "torch_ref iota demo_utils"
      "PObj SharedBiRNN []" "PTensor [1, 2] [3, 4]"]
  have a: "SharedBiRNN_forward (torch_ref iota demo_utils) (PObj SharedBiRNN [])
        (PTensor [1, 2] [3, 4]) =
     (Inr PNone,
      [Utils load_elmo_weights [PTensor [1, 2] [3, 4]],
       Utils load_glove_embeddings [PTensor [1, 2] [3, 4]],
       Torch torch_cat [PList [PTensor [1, 2, 1024] (iota [1, 2, 1024]),
                               PTensor [1, 2, 300] (iota [1, 2, 300])]] [(''dim'', PInt 2)]])"
    using t demo_loaders by blast
  have b: "every_call loader_or_cat
        (SharedBiRNN_forward (torch_ref iota demo_utils) (PObj SharedBiRNN [])
           (PTensor [1, 2] [3, 4]))"
    using t by blast
  have c: "outcome (SharedBiRNN_forward lenient_env (PNone :: nat pyval) PNone) = Inl TypeError"
    by (simp add: SharedBiRNN_forward_def run_simps lenient_env_def)
  show ?thesis using a b c by blast
qed

subsection \<open>Dimensions of the combined embeddings\<close>

lemma SharedRNN_init_word_rnn_input:
  assumes "lib (New Embedding [PInt nw, PInt wd] [(''padding_idx'', PInt 0)]) = Inr wemb"
    and "lib (New Embedding [PInt nc, PInt cd] [(''padding_idx'', PInt 0)]) = Inr cemb"
    and "attr cemb ''embedding_dim'' = Inr d"
    and "lib (New (rnn_cls ru) [d, d, PInt 1] [(''bidirectional'', PBool True)]) = Inr cb"
  shows "calls (SharedRNN_init lib nw sls nc wd cd hdim dr nl ru) =
           [New Embedding [PInt nw, PInt wd] [(''padding_idx'', PInt 0)],
            New Embedding [PInt nc, PInt cd] [(''padding_idx'', PInt 0)],
            New (rnn_cls ru) [d, d, PInt 1] [(''bidirectional'', PBool True)],
            New (rnn_cls ru) [PInt (wd + 2 * cd), PInt hdim, PInt nl]
              [(''bidirectional'', PBool True)]]"
proof (cases "ru = ''gru''")
  case True
  with assms show ?thesis
    by (simp add: SharedRNN_init_def CharRNN_init_def rnn_cls_def run_proj split: sum.splits)
next
  case False
  with assms show ?thesis
    by (simp add: SharedRNN_init_def CharRNN_init_def rnn_cls_def run_proj split: sum.splits)
qed

lemma SharedBiRNN_init_in_word_birnn:
  assumes "lib (New Embedding [PInt nw, PInt 1388] [(''padding_idx'', PInt 0)]) = Inr wemb"
    and "lib (New Embedding [PInt nc, PInt 32] [(''padding_idx'', PInt 0)]) = Inr cemb"
    and "ctor lib cemb 1 ru = (Inr ch, log)"
  shows "calls (SharedBiRNN_init_in (Some ctor) lib nw nc nl ru) =
           [New Embedding [PInt nw, PInt 1388] [(''padding_idx'', PInt 0)],
            New Embedding [PInt nc, PInt 32] [(''padding_idx'', PInt 0)]] @ log @
           [New (rnn_cls ru) []
              [(''input_size'', PInt 1388), (''hidden_size'', PInt 1388),
               (''num_layers'', PInt nl), (''bidirectional'', PBool True)]]"
proof (cases "ru = ''gru''")
  case True
  with assms show ?thesis
    by (simp add: SharedBiRNN_init_in_def ELMODim_def GloveDim_def CharDim_def rnn_cls_def
          run_proj split: sum.splits)
next
  case False
  with assms show ?thesis
    by (simp add: SharedBiRNN_init_in_def ELMODim_def GloveDim_def CharDim_def rnn_cls_def
          run_proj split: sum.splits)
qed

lemma SharedBiRNN_forward_cat:
  assumes "lib (Utils load_elmo_weights [X]) = Inr e"
    and "lib (Utils load_glove_embeddings [X]) = Inr g"
  shows "calls (SharedBiRNN_forward lib self X) =
           [Utils load_elmo_weights [X], Utils load_glove_embeddings [X],
            Torch torch_cat [PList [e, g]] [(''dim'', PInt 2)]]"
  using assms by (simp add: SharedBiRNN_forward_def run_proj split: sum.splits)

text \<open>
  Claim C6. The combination of word, character and contextual embeddings shows in three
  places. In SharedRNN, once the two tables and the character RNN are built, the word-level
  recurrent layer is constructed with input dimension \<open>word_dim + 2 * char_dim\<close>. In
  SharedBiRNN the word dimension is \<open>ELMODim + GloveDim + 2 * CharDim = 1388\<close>: the word
  table is built with it, and so would the word-level recurrent layer be under any binding
  of the name \<open>CharBiRNN\<close> that returns. \<open>SharedBiRNN.forward\<close> passes the answers of
  the ELMo and GloVe loaders for the batch, in this order, to \<open>torch.cat\<close> with
  \<open>dim=2\<close>.
\<close>

theorem embeddings_combined_by_concatenation:
  "(\<forall>wemb cemb d cb.
      lib (New Embedding [PInt nw, PInt wd] [(''padding_idx'', PInt 0)]) = Inr wemb
      \<and> lib (New Embedding [PInt nc, PInt cd] [(''padding_idx'', PInt 0)]) = Inr cemb
      \<and> attr cemb ''embedding_dim'' = Inr d
      \<and> lib (New (rnn_cls ru) [d, d, PInt 1] [(''bidirectional'', PBool True)]) = Inr cb \<longrightarrow>
      calls (SharedRNN_init lib nw sls nc wd cd hdim dr nl ru) =
        [New Embedding [PInt nw, PInt wd] [(''padding_idx'', PInt 0)],
         New Embedding [PInt nc, PInt cd] [(''padding_idx'', PInt 0)],
         New (rnn_cls ru) [d, d, PInt 1] [(''bidirectional'', PBool True)],
         New (rnn_cls ru) [PInt (wd + 2 * cd), PInt hdim, PInt nl]
           [(''bidirectional'', PBool True)]])
   \<and> ELMODim + GloveDim + 2 * CharDim = 1388
   \<and> take 1 (calls (SharedBiRNN_init lib nw nc nl ru)) =
       [New Embedding [PInt nw, PInt (ELMODim + GloveDim + 2 * CharDim)]
          [(''padding_idx'', PInt 0)]]
   \<and> (\<forall>ctor wemb cemb ch log.
        lib (New Embedding [PInt nw, PInt 1388] [(''padding_idx'', PInt 0)]) = Inr wemb
        \<and> lib (New Embedding [PInt nc, PInt 32] [(''padding_idx'', PInt 0)]) = Inr cemb
        \<and> ctor lib cemb 1 ru = (Inr ch, log) \<longrightarrow>
        calls (SharedBiRNN_init_in (Some ctor) lib nw nc nl ru) =
          [New Embedding [PInt nw, PInt 1388] [(''padding_idx'', PInt 0)],
           New Embedding [PInt nc, PInt 32] [(''padding_idx'', PInt 0)]] @ log @
          [New (rnn_cls ru) []
             [(''input_size'', PInt 1388), (''hidden_size'', PInt 1388),
              (''num_layers'', PInt nl), (''bidirectional'', PBool True)]])
   \<and> (\<forall>e g. lib (Utils load_elmo_weights [X]) = Inr e
        \<and> lib (Utils load_glove_embeddings [X]) = Inr g \<longrightarrow>
        calls (SharedBiRNN_forward lib self X) =
          [Utils load_elmo_weights [X], Utils load_glove_embeddings [X],
           Torch torch_cat [PList [e, g]] [(''dim'', PInt 2)]])"
proof (intro conjI allI impI)
  show "ELMODim + GloveDim + 2 * CharDim = 1388"
    by (simp add: ELMODim_def GloveDim_def CharDim_def)
  show "take 1 (calls (SharedBiRNN_init lib nw nc nl ru)) =
       [New Embedding [PInt nw, PInt (ELMODim + GloveDim + 2 * CharDim)]
          [(''padding_idx'', PInt 0)]]"
    by (simp add: SharedBiRNN_init_def SharedBiRNN_init_in_def run_proj)
qed (blast intro: SharedRNN_init_word_rnn_input SharedBiRNN_init_in_word_birnn
       SharedBiRNN_forward_cat)+

theorem embeddings_combined_by_concatenation_witness:
  "calls (SharedRNN_init (torch_ref iota demo_utils) 100 64 50 30 16 32 PNone 1 ''gru'') =
     [New Embedding [PInt 100, PInt 30] [(''padding_idx'', PInt 0)],
      New Embedding [PInt 50, PInt 16] [(''padding_idx'', PInt 0)],
      New GRU [PInt 16, PInt 16, PInt 1] [(''bidirectional'', PBool True)],
      New GRU [PInt 62, PInt 32, PInt 1] [(''bidirectional'', PBool True)]]
   \<and> calls (SharedBiRNN_init_in (Some CharRNN_init) (torch_ref iota demo_utils) 100 50 1
              ''gru'') =
     [New Embedding [PInt 100, PInt 1388] [(''padding_idx'', PInt 0)],
      New Embedding [PInt 50, PInt 32] [(''padding_idx'', PInt 0)],
      New GRU [PInt 32, PInt 32, PInt 1] [(''bidirectional'', PBool True)],
      New GRU []
        [(''input_size'', PInt 1388), (''hidden_size'', PInt 1388),
         (''num_layers'', PInt 1), (''bidirectional'', PBool True)]]
   \<and> calls (SharedBiRNN_forward (torch_ref iota demo_utils) (PObj SharedBiRNN [])
              (PTensor [1, 2] [3, 4])) =
     [Utils load_elmo_weights [PTensor [1, 2] [3, 4]],
      Utils load_glove_embeddings [PTensor [1, 2] [3, 4]],
      Torch torch_cat [PList [PTensor [1, 2, 1024] (iota [1, 2, 1024]),
                              PTensor [1, 2, 300] (iota [1, 2, 300])]] [(''dim'', PInt 2)]]"
proof -
  note t = embeddings_combined_by_concatenation[where lib = "torch_ref iota demo_utils"
      and nw = 100 and sls = 64 and nc = 50 and wd = 30 and cd = 16 and hdim = 32
      and dr = PNone and nl = 1 and ru = "''gru''" and X = "PTensor [1, 2] [3, 4]"
      and self = "PObj SharedBiRNN []"]
  have c: "CharRNN_init (torch_ref iota demo_utils)
             (PObj Embedding [(''num_embeddings'', PInt 50), (''embedding_dim'', PInt 32),
                              (''padding_idx'', PInt 0)]) 1 ''gru'' =
           (Inr (PObj CharRNN
                  [(''cemb'', PObj Embedding [(''num_embeddings'', PInt 50),
                      (''embedding_dim'', PInt 32), (''padding_idx'', PInt 0)]),
                   (''birnn'', PObj GRU [(''input_size'', PInt 32), (''hidden_size'', PInt 32),
                      (''num_layers'', PInt 1), (''bidirectional'', PBool True)])]),
            [New GRU [PInt 32, PInt 32, PInt 1] [(''bidirectional'', PBool True)]])"
    by (simp add: CharRNN_init_def run_simps ref_defs)
  show ?thesis
    using t c by (simp add: ref_defs rnn_cls_def demo_utils_def)
qed

subsection \<open>Constructing MTLArchitecture\<close>

lemma RESpecificRNN_init_never_returns:
  assumes "\<And>m. \<exists>e. lib (Forward m [PNone]) = Inl e"
  shows "outcome (RESpecificRNN_init lib sls nr hdim dr nl act ru) \<noteq> Inr obj"
proof -
  have a: "fst (activation_on lib k PNone) \<noteq> Inr v" for k v
  proof (cases "lib (New k [] [])")
    case (Inl e)
    then show ?thesis
      by (simp add: activation_on_def fst_and_then call_def)
  next
    case (Inr m)
    with assms[of m] show ?thesis
      by (auto simp add: activation_on_def fst_and_then call_def)
  qed
  show ?thesis
    using a
    by (auto simp add: RESpecificRNN_init_def outcome_def fst_and_then_Inr lift_def ret_def
        Let_def split: if_splits)
qed

lemma MTLArchitecture_init_never_returns:
  assumes "\<And>m. \<exists>e. lib (Forward m [PNone]) = Inl e"
  shows "\<exists>e. outcome (MTLArchitecture_init lib nw sls nc wd cd hdim dr nl nt nr act ru) = Inl e"
proof -
  have "outcome (MTLArchitecture_init lib nw sls nc wd cd hdim dr nl nt nr act ru) \<noteq> Inr obj"
    for obj
    using RESpecificRNN_init_never_returns[where lib = lib, of sls nr hdim dr nl act ru] assms
    by (auto simp add: MTLArchitecture_init_def outcome_def fst_and_then_Inr Let_def)
  then show ?thesis
    by (cases "outcome (MTLArchitecture_init lib nw sls nc wd cd hdim dr nl nt nr act ru)") auto
qed

lemma torch_ref_rejects_None: "\<exists>e. torch_ref gen utils (Forward m [PNone]) = Inl e"
proof (cases m)
  case (PObj k as)
  have 1: "ref_lookup gen as [PNone] = Inl TypeError"
    by (simp add: ref_lookup_def)
  have 2: "ref_apply_linear gen as [PNone] = Inl TypeError"
    by (simp add: ref_apply_linear_def)
  have 3: "\<exists>e. ref_apply_rnn gen k as [PNone] = Inl e"
    by (simp add: ref_apply_rnn_def Let_def split: option.splits pyval.splits)
  from 1 2 3 show ?thesis
    by (simp add: PObj torch_ref_def ref_forward_def)
qed (simp_all add: torch_ref_def ref_forward_def)

text \<open>
  Claim C1. The claim is that constructing MTLArchitecture with a supported activation
  completes. Evaluated in the reference environment at ordinary sizes, for each of the
  three activations and for both recurrent units, the constructor raises TypeError: the
  shared layers and the NER head are built, then RESpecificRNN applies its activation
  layer to \<open>None\<close>. (\<open>MTLArchitecture_init_never_returns\<close> above: the same in every
  environment whose layers reject \<open>None\<close>, for every argument.)
\<close>

theorem MTLArchitecture_init_raises:
  "outcome (MTLArchitecture_init (torch_ref gen utils) 100 64 50 30 16 32 dropout 1 9 5
              ''relu'' ''gru'') = Inl TypeError
   \<and> outcome (MTLArchitecture_init (torch_ref gen utils) 100 64 50 30 16 32 dropout 1 9 5
                ''tanh'' ''gru'') = Inl TypeError
   \<and> outcome (MTLArchitecture_init (torch_ref gen utils) 100 64 50 30 16 32 dropout 1 9 5
                ''gelu'' ''gru'') = Inl TypeError
   \<and> outcome (MTLArchitecture_init (torch_ref gen utils) 100 64 50 30 16 32 dropout 1 9 5
                ''relu'' ''lstm'') = Inl TypeError
   \<and> outcome (MTLArchitecture_init (torch_ref gen utils) 100 64 50 30 16 32 dropout 1 9 5
                ''tanh'' ''lstm'') = Inl TypeError
   \<and> outcome (MTLArchitecture_init (torch_ref gen utils) 100 64 50 30 16 32 dropout 1 9 5
                ''gelu'' ''lstm'') = Inl TypeError"
  by (simp add: init_defs run_simps ref_defs)

text \<open>
  Claim C4. The claim is that construction composes the shared encoder, the NER head and an
  RE head over \<open>shared_layer_size\<close> inputs. At the default selectors the run is: the two
  tables, the character GRU and the word GRU of SharedRNN; the GRU over
  \<open>shared_layer_size\<close> inputs, the activation and the projection to \<open>num_tag_types\<close> of
  the NER head; then the activation of the RE head, applied to \<open>None\<close>, which raises.
  The projection to \<open>num_rel_types\<close> and the loss are never constructed and no object is
  returned. Moreover the run of RESpecificRNN does not depend on \<open>shared_layer_size\<close>
  (nor on \<open>hidden_dim\<close>, \<open>num_layers\<close> or the recurrent unit): it builds no recurrent
  layer, while NERSpecificRNN starts with one over \<open>shared_layer_size\<close> inputs.
\<close>

theorem MTLArchitecture_init_run:
  "MTLArchitecture_init (torch_ref gen utils) 100 64 50 30 16 32 dropout 1 9 5 ''relu'' ''gru'' =
     (Inl TypeError,
      [New Embedding [PInt 100, PInt 30] [(''padding_idx'', PInt 0)],
       New Embedding [PInt 50, PInt 16] [(''padding_idx'', PInt 0)],
       New GRU [PInt 16, PInt 16, PInt 1] [(''bidirectional'', PBool True)],
       New GRU [PInt 62, PInt 32, PInt 1] [(''bidirectional'', PBool True)],
       New GRU [PInt 64, PInt 32, PInt 1] [(''bidirectional'', PBool True)],
       New ReLU [] [], New Linear [PInt 32, PInt 9] [], New ReLU [] [],
       Forward (PObj ReLU []) [PNone]])
   \<and> RESpecificRNN_init lib sls nr hdim dr nl act ru =
       RESpecificRNN_init lib sls' nr hdim' dr' nl' act ru'
   \<and> list_all (\<lambda>c. \<not> builds_rnn c) (calls (RESpecificRNN_init lib sls nr hdim dr nl act ru))
   \<and> hd (calls (NERSpecificRNN_init lib sls nt hdim dr nl act ru)) =
       New (rnn_cls ru) [PInt sls, PInt hdim, PInt nl] [(''bidirectional'', PBool True)]"
proof (intro conjI)
  show "MTLArchitecture_init (torch_ref gen utils) 100 64 50 30 16 32 dropout 1 9 5
          ''relu'' ''gru'' =
     (Inl TypeError,
      [New Embedding [PInt 100, PInt 30] [(''padding_idx'', PInt 0)],
       New Embedding [PInt 50, PInt 16] [(''padding_idx'', PInt 0)],
       New GRU [PInt 16, PInt 16, PInt 1] [(''bidirectional'', PBool True)],
       New GRU [PInt 62, PInt 32, PInt 1] [(''bidirectional'', PBool True)],
       New GRU [PInt 64, PInt 32, PInt 1] [(''bidirectional'', PBool True)],
       New ReLU [] [], New Linear [PInt 32, PInt 9] [], New ReLU [] [],
       Forward (PObj ReLU []) [PNone]])"
    by (simp add: init_defs run_simps ref_defs)
  show "RESpecificRNN_init lib sls nr hdim dr nl act ru =
       RESpecificRNN_init lib sls' nr hdim' dr' nl' act ru'"
    by (simp add: RESpecificRNN_init_def)
  have "every_call (\<lambda>c. \<not> builds_rnn c) (RESpecificRNN_init lib sls nr hdim dr nl act ru)"
    unfolding RESpecificRNN_init_def Let_def activation_on_def
    by (intro every_call_intros every_call_call) (simp_all add: builds_rnn_def)
  then show "list_all (\<lambda>c. \<not> builds_rnn c)
               (calls (RESpecificRNN_init lib sls nr hdim dr nl act ru))"
    by (simp add: every_call_def calls_def)
  show "hd (calls (NERSpecificRNN_init lib sls nt hdim dr nl act ru)) =
       New (rnn_cls ru) [PInt sls, PInt hdim, PInt nl] [(''bidirectional'', PBool True)]"
    using NERSpecificRNN_init_first_call by blast
qed

subsection \<open>CharRNN.forward on a GRU\<close>

lemma view_of_gru_slice:
  assumes "unpack2 (PTensor [2 * nat L, nat B, nat H] d) = Inr (fh, fc)"
    and "0 < L" and "0 < B" and "0 < H"
  shows "view fh [PInt L, PInt 2, PInt B, PInt H] = Inl RuntimeError"
proof -
  from assms(1) have L1: "nat L = 1" and fh: "fh = PTensor [nat B, nat H] (take (nat B * nat H) d)"
    by (auto simp add: unpack2_def split: if_splits)
  from L1 assms(2) have L: "L = 1"
    by simp
  have ne: "2 * (B * H) \<noteq> int (nat B * nat H)"
    using assms(3,4) by (simp add: nat_mult_distrib)
  show ?thesis
    using assms(3,4) ne by (simp add: fh L view_def infer_view_def)
qed

lemma batch_sizes_3_2: "batch_sizes [3, 2] = [2, 2, 1]"
  by code_simp

lemma ref_pack_3_2:
  assumes "ref_pack gen [e, PList [PInt 3, PInt 2]] kw = Inr x"
  shows "\<exists>s. x = PObj PackedSequence
                 [(''data'', PTensor (5 # s) (gen (5 # s))),
                  (''batch_sizes'', PList [PInt 2, PInt 2, PInt 1])]"
  using assms
  by (auto simp add: ref_pack_def bind_args_def lengths_of_def batch_sizes_3_2
      split: pyval.splits list.splits if_splits)

lemma ref_gru_3_2:
  assumes "torch_ref gen utils
             (Torch pack_padded_sequence [e, PList [PInt 3, PInt 2]] kw) = Inr x"
    and "torch_ref gen utils
           (Forward (PObj GRU [(''input_size'', PInt 3), (''hidden_size'', PInt 3),
                               (''num_layers'', PInt 1), (''bidirectional'', PBool True)]) [x])
         = Inr r"
  shows "\<exists>out d. r = PTuple [out, PTensor [2, 2, 3] d]"
proof -
  from assms(1) obtain s where
    x: "x = PObj PackedSequence
              [(''data'', PTensor (5 # s) (gen (5 # s))),
               (''batch_sizes'', PList [PInt 2, PInt 2, PInt 1])]"
    using ref_pack_3_2[of gen e kw x] by (auto simp add: torch_ref_def)
  from assms(2) show ?thesis
    by (auto simp add: x torch_ref_def ref_forward_def ref_apply_rnn_def ref_states_def
        flag_def Let_def split: if_splits list.splits)
qed

text \<open>
  Claim C8. Let the layer stored in \<open>birnn\<close> be a GRU: whenever it answers on a batch
  that \<open>pack_padded_sequence\<close> packed from these lengths, its answer is a pair whose
  second component is the hidden-state tensor itself, of shape
  \<open>(2 * num_layers, len(char_lengths), hidden_size)\<close> with positive sizes (packing
  rejects an empty batch). Then \<open>CharRNN.forward\<close> raises, for every \<open>padded_chars\<close>
  and \<open>char_lengths\<close>. The second component is unpacked into two names as if it were
  the LSTM's \<open>(h_n, c_n)\<close>: with more than one layer the unpacking itself fails, and with
  one layer \<open>final_h\<close> is only the first direction's slice, which \<open>view\<close> rejects.
\<close>

theorem CharRNN_forward_gru_fails:
  assumes gru: "\<And>birnn e x r.
       attr self ''birnn'' = Inr birnn \<Longrightarrow>
       lib (Torch pack_padded_sequence [e, char_lengths]
              [(''batch_first'', PBool True), (''enforce_sorted'', PBool False)]) = Inr x \<Longrightarrow>
       lib (Forward birnn [x]) = Inr r \<Longrightarrow>
       \<exists>L H B out d.
         attr birnn ''num_layers'' = Inr (PInt L) \<and> attr birnn ''hidden_size'' = Inr (PInt H)
         \<and> py_len char_lengths = Inr B \<and> 0 < L \<and> 0 < H \<and> 0 < B
         \<and> r = PTuple [out, PTensor [2 * nat L, nat B, nat H] d]"
  shows "\<exists>e. outcome (CharRNN_forward lib self padded_chars char_lengths) = Inl e"
proof -
  have "outcome (CharRNN_forward lib self padded_chars char_lengths) \<noteq> Inr v" for v
  proof
    assume "outcome (CharRNN_forward lib self padded_chars char_lengths) = Inr v"
    then obtain B' birnn e x r outp state fh fc nl' hs' where
      b: "attr self ''birnn'' = Inr birnn"
      and B': "py_len char_lengths = Inr B'"
      and x: "lib (Torch pack_padded_sequence [e, char_lengths]
              [(''batch_first'', PBool True), (''enforce_sorted'', PBool False)]) = Inr x"
      and r: "lib (Forward birnn [x]) = Inr r"
      and u1: "unpack2 r = Inr (outp, state)"
      and u2: "unpack2 state = Inr (fh, fc)"
      and nl': "attr birnn ''num_layers'' = Inr nl'"
      and hs': "attr birnn ''hidden_size'' = Inr hs'"
      and v: "\<exists>w. view fh [nl', PInt 2, PInt B', hs'] = Inr w"
      by (auto simp add: CharRNN_forward_def outcome_def fst_and_then_Inr lift_def call_def
          ret_def split: prod.splits)
    from gru[OF b x r] obtain L H B out d where
      L: "attr birnn ''num_layers'' = Inr (PInt L)"
      and H: "attr birnn ''hidden_size'' = Inr (PInt H)"
      and B: "py_len char_lengths = Inr B"
      and pos: "0 < L" "0 < H" "0 < B"
      and req: "r = PTuple [out, PTensor [2 * nat L, nat B, nat H] d]"
      by blast
    from u1 req have "state = PTensor [2 * nat L, nat B, nat H] d"
      by (simp add: unpack2_def)
    with u2 have "view fh [PInt L, PInt 2, PInt B, PInt H] = Inl RuntimeError"
      using view_of_gru_slice[of L B H d fh fc] pos by simp
    moreover from nl' L hs' H B' B have "nl' = PInt L" "hs' = PInt H" "B' = B"
      by simp_all
    ultimately show False
      using v by simp
  qed
  then show ?thesis
    by (cases "outcome (CharRNN_forward lib self padded_chars char_lengths)") auto
qed

theorem CharRNN_forward_gru_fails_witness:
  "CharRNN_init (torch_ref iota demo_utils)
     (PObj Embedding [(''num_embeddings'', PInt 5), (''embedding_dim'', PInt 3),
                      (''padding_idx'', PInt 0)]) 1 ''gru'' =
     (Inr (PObj CharRNN
            [(''cemb'', PObj Embedding [(''num_embeddings'', PInt 5),
                (''embedding_dim'', PInt 3), (''padding_idx'', PInt 0)]),
             (''birnn'', PObj GRU [(''input_size'', PInt 3), (''hidden_size'', PInt 3),
                (''num_layers'', PInt 1), (''bidirectional'', PBool True)])]),
      [New GRU [PInt 3, PInt 3, PInt 1] [(''bidirectional'', PBool True)]])
   \<and> (\<exists>e. outcome (CharRNN_forward (torch_ref iota demo_utils)
          (PObj CharRNN
            [(''cemb'', PObj Embedding [(''num_embeddings'', PInt 5),
                (''embedding_dim'', PInt 3), (''padding_idx'', PInt 0)]),
             (''birnn'', PObj GRU [(''input_size'', PInt 3), (''hidden_size'', PInt 3),
                (''num_layers'', PInt 1), (''bidirectional'', PBool True)])])
          (PTensor [2, 3] [1, 2, 3, 4, 1, 0]) (PList [PInt 3, PInt 2])) = Inl e)
   \<and> outcome (CharRNN_forward (torch_ref iota demo_utils)
          (PObj CharRNN
            [(''cemb'', PObj Embedding [(''num_embeddings'', PInt 5),
                (''embedding_dim'', PInt 3), (''padding_idx'', PInt 0)]),
             (''birnn'', PObj GRU [(''input_size'', PInt 3), (''hidden_size'', PInt 3),
                (''num_layers'', PInt 1), (''bidirectional'', PBool True)])])
          (PTensor [2, 3] [1, 2, 3, 4, 1, 0]) (PList [PInt 3, PInt 2])) = Inl RuntimeError"
proof -
  let ?birnn = "PObj GRU [(''input_size'', PInt 3), (''hidden_size'', PInt 3),
                (''num_layers'', PInt 1), (''bidirectional'', PBool True)] :: nat pyval"
  let ?self = "PObj CharRNN
            [(''cemb'', PObj Embedding [(''num_embeddings'', PInt 5),
                (''embedding_dim'', PInt 3), (''padding_idx'', PInt 0)]),
             (''birnn'', ?birnn)]"
  have a: "CharRNN_init (torch_ref iota demo_utils)
     (PObj Embedding [(''num_embeddings'', PInt 5), (''embedding_dim'', PInt 3),
                      (''padding_idx'', PInt 0)]) 1 ''gru'' =
     (Inr ?self, [New GRU [PInt 3, PInt 3, PInt 1] [(''bidirectional'', PBool True)]])"
    by (simp add: CharRNN_init_def run_simps ref_defs)
  have g: "\<exists>L H B out d.
         attr birnn ''num_layers'' = Inr (PInt L) \<and> attr birnn ''hidden_size'' = Inr (PInt H)
         \<and> py_len (PList [PInt 3, PInt 2 :: nat pyval]) = Inr B \<and> 0 < L \<and> 0 < H \<and> 0 < B
         \<and> r = PTuple [out, PTensor [2 * nat L, nat B, nat H] d]"
    if "attr ?self ''birnn'' = Inr birnn"
      and "torch_ref iota demo_utils
          (Torch pack_padded_sequence [e, PList [PInt 3, PInt 2]]
             [(''batch_first'', PBool True), (''enforce_sorted'', PBool False)]) = Inr x"
      and "torch_ref iota demo_utils (Forward birnn [x]) = Inr r" for birnn e x r
  proof -
    from that(1) have birnn: "birnn = ?birnn"
      by simp
    from ref_gru_3_2[OF that(2) that(3)[unfolded birnn]] obtain out d where
      "r = PTuple [out, PTensor [2, 2, 3] d]"
      by blast
    then show ?thesis
      by (intro exI[of _ 1] exI[of _ 3] exI[of _ 2] exI[of _ out] exI[of _ d])
         (simp add: birnn py_len_def)
  qed
  have b: "\<exists>e. outcome (CharRNN_forward (torch_ref iota demo_utils) ?self
          (PTensor [2, 3] [1, 2, 3, 4, 1, 0]) (PList [PInt 3, PInt 2])) = Inl e"
    by (rule CharRNN_forward_gru_fails[OF g])
  have c: "outcome (CharRNN_forward (torch_ref iota demo_utils) ?self
          (PTensor [2, 3] [1, 2, 3, 4, 1, 0]) (PList [PInt 3, PInt 2])) = Inl RuntimeError"
    by (simp add: CharRNN_forward_def run_simps ref_defs ref_lookup_5_3 ref_pack_def lengths_of_def batch_sizes_3_2
          py_len_def unpack2_def view_def infer_view_def)
  show ?thesis
    using a b c by blast
qed

subsection \<open>CharRNN.forward on an LSTM\<close>

lemma block_take_drop:
  assumes "(i + 1) * k \<le> n"
  shows "block k i (take n (drop (m * k) d)) = block k (m + i) d"
proof -
  have "min k (n - i * k) = k"
    using assms by auto
  then show ?thesis
    by (simp add: block_def drop_take add_mult_distrib add.commute)
qed

lemma view_lstm_state:
  "view (PTensor [2 * L, B, H] hn) [PInt (int L), PInt 2, PInt (int B), PInt (int H)] =
     Inr (PTensor [L, 2, B, H] hn)"
  by (simp add: view_def infer_view_def)

lemma index0_last_layer:
  assumes "0 < L"
  shows "index0 (PTensor [L, 2, B, H] hn) (- 1) =
           Inr (PTensor [2, B, H] (take (2 * B * H) (drop ((L - 1) * 2 * B * H) hn)))"
  using assms by (simp add: index0_def Let_def nat_diff_distrib' mult.assoc)

lemma transpose_two:
  "transpose_0_1 (PTensor [2, B, H] d) =
     Inr (PTensor [B, 2, H] (concat (map (\<lambda>b. block H b d @ block H (B + b) d) [0..<B])))"
proof -
  have "[0..<2] = [0, 1]"
    by (simp add: upt_rec)
  then show ?thesis
    by (simp add: transpose_0_1_def)
qed

lemma view_rows:
  assumes "0 < B"
  shows "view (PTensor [B, 2, H] d) [PInt (int B), PInt (- 1)] = Inr (PTensor [B, 2 * H] d)"
  using assms by (simp add: view_def infer_view_def Let_def)

text \<open>
  The hidden states of the last layer, per sequence: row \<open>b\<close> is the final state of the
  forward direction followed by that of the backward direction.
\<close>

lemma last_layer_rows:
  assumes "0 < L"
  shows "concat (map (\<lambda>b. block H b (take (2 * B * H) (drop ((L - 1) * 2 * B * H) hn))
                        @ block H (B + b) (take (2 * B * H) (drop ((L - 1) * 2 * B * H) hn)))
                  [0..<B]) =
         concat (map (\<lambda>b. block H (2 * (L - 1) * B + b) hn
                        @ block H ((2 * (L - 1) + 1) * B + b) hn) [0..<B])"
proof -
  have "block H b (take (2 * B * H) (drop ((L - 1) * 2 * B * H) hn)) =
          block H (2 * (L - 1) * B + b) hn
        \<and> block H (B + b) (take (2 * B * H) (drop ((L - 1) * 2 * B * H) hn)) =
          block H ((2 * (L - 1) + 1) * B + b) hn" if "b < B" for b
  proof -
    have s1: "b + 1 \<le> 2 * B" and s2: "B + b + 1 \<le> 2 * B"
      using that by simp_all
    have le1: "(b + 1) * H \<le> 2 * B * H"
      using s1 by (rule mult_le_mono1)
    have le2: "(B + b + 1) * H \<le> 2 * B * H"
      using s2 by (rule mult_le_mono1)
    have off: "(L - 1) * 2 * B * H = (2 * (L - 1) * B) * H"
      by (simp add: mult.assoc mult.left_commute)
    have i2: "(2 * (L - 1) + 1) * B + b = 2 * (L - 1) * B + (B + b)"
      by (simp add: add_mult_distrib)
    show ?thesis
      by (simp only: off i2 block_take_drop[OF le1] block_take_drop[OF le2] simp_thms)
  qed
  then show ?thesis
    by (auto intro!: arg_cong[where f = concat] map_cong)
qed

lemma CharRNN_forward_lstm:
  assumes "attr self ''cemb'' = Inr cemb"
    and "lib (Forward cemb [padded_chars]) = Inr embedded"
    and "lib (Torch pack_padded_sequence [embedded, char_lengths]
                [(''batch_first'', PBool True), (''enforce_sorted'', PBool False)]) = Inr packed"
    and "attr self ''birnn'' = Inr birnn"
    and "lib (Forward birnn [packed]) = Inr (PTuple [out, PTuple [PTensor [2 * L, B, H] hn, cn]])"
    and "attr birnn ''num_layers'' = Inr (PInt (int L))"
    and "attr birnn ''hidden_size'' = Inr (PInt (int H))"
    and "py_len char_lengths = Inr (int B)"
    and "0 < L" and "0 < B"
  shows "outcome (CharRNN_forward lib self padded_chars char_lengths) =
           Inr (PTensor [B, 2 * H]
                  (concat (map (\<lambda>b. block H (2 * (L - 1) * B + b) hn
                                   @ block H ((2 * (L - 1) + 1) * B + b) hn) [0..<B])))"
proof -
  have "outcome (CharRNN_forward lib self padded_chars char_lengths) =
           Inr (PTensor [B, 2 * H]
                  (concat (map (\<lambda>b.
                      block H b (take (2 * B * H) (drop ((L - 1) * 2 * B * H) hn))
                      @ block H (B + b) (take (2 * B * H) (drop ((L - 1) * 2 * B * H) hn)))
                    [0..<B])))"
    using assms
    by (simp add: CharRNN_forward_def run_simps unpack2_def view_lstm_state index0_last_layer
          transpose_two contiguous_def view_rows del: attr.simps)
  then show ?thesis
    by (simp only: last_layer_rows[OF \<open>0 < L\<close>])
qed

lemma iota_2_2_3: "iota [2, 2, 3] = [0, 1, 2, 3, 4, 5, 6, 7, 8, 9, 10, 11]"
  by code_simp

text \<open>
  Claim C5. The claim is that \<open>CharRNN.forward\<close> returns, for every batch, the final
  hidden states of both directions concatenated per sequence, of shape
  \<open>(B, 2 * embedding_dim)\<close>. \<open>CharRNN_forward_lstm\<close> above shows this for a layer that
  answers as an LSTM does. Evaluated on a batch of two sequences of lengths 3 and 2, with
  embedding dimension 3 and one layer: the CharRNN built with \<open>recurrent_unit="lstm"\<close>
  returns a tensor of shape \<open>(2, 6)\<close> whose rows interleave the two directions, and the
  CharRNN built with the default \<open>"gru"\<close> raises RuntimeError on the same batch.
\<close>

theorem CharRNN_forward_default_unit_raises:
  "outcome (CharRNN_forward (torch_ref iota demo_utils)
      (PObj CharRNN
         [(''cemb'', PObj Embedding [(''num_embeddings'', PInt 5),
             (''embedding_dim'', PInt 3), (''padding_idx'', PInt 0)]),
          (''birnn'', PObj GRU [(''input_size'', PInt 3), (''hidden_size'', PInt 3),
             (''num_layers'', PInt 1), (''bidirectional'', PBool True)])])
      (PTensor [2, 3] [1, 2, 3, 4, 1, 0]) (PList [PInt 3, PInt 2])) = Inl RuntimeError
   \<and> outcome (CharRNN_forward (torch_ref iota demo_utils)
      (PObj CharRNN
         [(''cemb'', PObj Embedding [(''num_embeddings'', PInt 5),
             (''embedding_dim'', PInt 3), (''padding_idx'', PInt 0)]),
          (''birnn'', PObj LSTM [(''input_size'', PInt 3), (''hidden_size'', PInt 3),
             (''num_layers'', PInt 1), (''bidirectional'', PBool True)])])
      (PTensor [2, 3] [1, 2, 3, 4, 1, 0]) (PList [PInt 3, PInt 2])) =
     Inr (PTensor [2, 6] [0, 1, 2, 6, 7, 8, 3, 4, 5, 9, 10, 11])
   \<and> fst (CharRNN_init (torch_ref iota demo_utils)
        (PObj Embedding [(''num_embeddings'', PInt 5), (''embedding_dim'', PInt 3),
                         (''padding_idx'', PInt 0)]) 1 ''gru'') =
     Inr (PObj CharRNN
         [(''cemb'', PObj Embedding [(''num_embeddings'', PInt 5),
             (''embedding_dim'', PInt 3), (''padding_idx'', PInt 0)]),
          (''birnn'', PObj GRU [(''input_size'', PInt 3), (''hidden_size'', PInt 3),
             (''num_layers'', PInt 1), (''bidirectional'', PBool True)])])"
proof (intro conjI)
  show "outcome (CharRNN_forward (torch_ref iota demo_utils)
      (PObj CharRNN
         [(''cemb'', PObj Embedding [(''num_embeddings'', PInt 5),
             (''embedding_dim'', PInt 3), (''padding_idx'', PInt 0)]),
          (''birnn'', PObj GRU [(''input_size'', PInt 3), (''hidden_size'', PInt 3),
             (''num_layers'', PInt 1), (''bidirectional'', PBool True)])])
      (PTensor [2, 3] [1, 2, 3, 4, 1, 0]) (PList [PInt 3, PInt 2])) = Inl RuntimeError"
    by (simp add: CharRNN_forward_def run_simps ref_defs ref_lookup_5_3 ref_pack_def lengths_of_def batch_sizes_3_2
          py_len_def unpack2_def view_def infer_view_def)
  show "outcome (CharRNN_forward (torch_ref iota demo_utils)
      (PObj CharRNN
         [(''cemb'', PObj Embedding [(''num_embeddings'', PInt 5),
             (''embedding_dim'', PInt 3), (''padding_idx'', PInt 0)]),
          (''birnn'', PObj LSTM [(''input_size'', PInt 3), (''hidden_size'', PInt 3),
             (''num_layers'', PInt 1), (''bidirectional'', PBool True)])])
      (PTensor [2, 3] [1, 2, 3, 4, 1, 0]) (PList [PInt 3, PInt 2])) =
     Inr (PTensor [2, 6] [0, 1, 2, 6, 7, 8, 3, 4, 5, 9, 10, 11])"
    by (simp add: CharRNN_forward_def run_simps ref_defs ref_lookup_5_3 ref_pack_def lengths_of_def batch_sizes_3_2
          py_len_def unpack2_def view_def infer_view_def index0_def transpose_0_1_def
          contiguous_def block_def iota_2_2_3 upt_rec)
  show "fst (CharRNN_init (torch_ref iota demo_utils)
        (PObj Embedding [(''num_embeddings'', PInt 5), (''embedding_dim'', PInt 3),
                         (''padding_idx'', PInt 0)]) 1 ''gru'') =
     Inr (PObj CharRNN
         [(''cemb'', PObj Embedding [(''num_embeddings'', PInt 5),
             (''embedding_dim'', PInt 3), (''padding_idx'', PInt 0)]),
          (''birnn'', PObj GRU [(''input_size'', PInt 3), (''hidden_size'', PInt 3),
             (''num_layers'', PInt 1), (''bidirectional'', PBool True)])])"
    by (simp add: CharRNN_init_def run_simps ref_defs)
qed

end
